theory Spec2Isabelle
  imports Main
begin

section \<open>JavaScript values and library functions the two pages use\<close>

text \<open>
  Strings are \<open>char list\<close>s of ASCII characters. A JavaScript number that holds an integer
  (a copy count, an HTTP status, a list length) is an \<open>int\<close> or a \<open>nat\<close>; the rounding of
  doubles beyond \<open>2^53\<close> is not modelled. A value that may be missing (\<open>null\<close> from
  \<open>localStorage.getItem\<close> and from the query string, \<open>undefined\<close> for a field that an event
  does not carry) is an \<open>option\<close>, with \<open>None\<close> when it is missing.
\<close>

subsection \<open>Number.prototype.toString and template literals\<close>

definition digitChar :: "nat \<Rightarrow> char" where
  "digitChar d = ''0123456789'' ! d"

fun digits10 :: "nat \<Rightarrow> string" where
  "digits10 n = (if n < 10 then [digitChar n] else digits10 (n div 10) @ [digitChar (n mod 10)])"

declare digits10.simps [simp del]

definition toString :: "int \<Rightarrow> string" where
  "toString i = (if i < 0 then CHR ''-'' # digits10 (nat (- i)) else digits10 (nat i))"

text \<open>
  A template literal renders \<open>null\<close> as the four characters \<open>null\<close>. It is applied to the
  shop id, the stored token and the bearer token, which are strings or \<open>null\<close>.
\<close>

definition template :: "string option \<Rightarrow> string" where
  "template v = (case v of None \<Rightarrow> ''null'' | Some s \<Rightarrow> s)"

text \<open>Truthiness of a string that may be \<open>null\<close>: present and not empty.\<close>

definition truthy :: "string option \<Rightarrow> bool" where
  "truthy v = (case v of None \<Rightarrow> False | Some s \<Rightarrow> s \<noteq> [])"

subsection \<open>parseInt with no radix argument\<close>

text \<open>
  \<open>parseInt\<close> skips leading white space, reads an optional sign, takes radix 16 after a
  \<open>0x\<close> or \<open>0X\<close> prefix and radix 10 otherwise, and converts the longest prefix of digits
  of that radix; with no digit the result is \<open>NaN\<close>, here \<open>None\<close>.
\<close>

definition isStrWhiteSpaceChar :: "char \<Rightarrow> bool" where
  "isStrWhiteSpaceChar c = (of_char c \<in> {9, 10, 11, 12, 13, 32 :: nat})"

definition digitValue :: "char \<Rightarrow> nat option" where
  "digitValue c =
     (let n = (of_char c :: nat) in
      if 48 \<le> n \<and> n \<le> 57 then Some (n - 48)
      else if 97 \<le> n \<and> n \<le> 122 then Some (n - 87)
      else if 65 \<le> n \<and> n \<le> 90 then Some (n - 55)
      else None)"

definition isRadixDigit :: "nat \<Rightarrow> char \<Rightarrow> bool" where
  "isRadixDigit R c = (case digitValue c of None \<Rightarrow> False | Some v \<Rightarrow> v < R)"

definition radixValue :: "nat \<Rightarrow> string \<Rightarrow> nat" where
  "radixValue R Z =
     foldl (\<lambda>a c. a * R + (case digitValue c of None \<Rightarrow> 0 | Some v \<Rightarrow> v)) 0 Z"

definition parseInt :: "string \<Rightarrow> int option" where
  "parseInt inputString =
     (let S = dropWhile isStrWhiteSpaceChar inputString;
          sign = (if take 1 S = ''-'' then - 1 else 1 :: int);
          S1 = (if take 1 S = ''+'' \<or> take 1 S = ''-'' then drop 1 S else S);
          stripPrefix = (take 2 S1 = ''0x'' \<or> take 2 S1 = ''0X'');
          R = (if stripPrefix then 16 else 10 :: nat);
          S2 = (if stripPrefix then drop 2 S1 else S1);
          Z = takeWhile (isRadixDigit R) S2
      in if Z = [] then None else Some (sign * int (radixValue R Z)))"

subsection \<open>fetch\<close>

text \<open>What a \<open>catch\<close> clause receives: an \<open>Error\<close> with its message, or any other value.\<close>

datatype thrown = ErrorObject string | OtherValue

text \<open>
  A response: its status, and what reading its body as text and as JSON gives (either read
  may reject). The type parameter is the shape of the JSON the endpoint answers with.
\<close>

record 'j response =
  resp_status :: nat
  resp_text :: "thrown + string"
  resp_json :: "thrown + 'j"

text \<open>\<open>response.ok\<close>: the status is in the range 200 to 299.\<close>

definition ok :: "'j response \<Rightarrow> bool" where
  "ok r = (200 \<le> resp_status r \<and> resp_status r \<le> 299)"

text \<open>The promise \<open>fetch\<close> returns resolves with a response or rejects (a network failure).\<close>

type_synonym 'j fetch_result = "thrown + 'j response"

datatype json_value = JString string | JBool bool

record upload_file =
  file_name :: string
  file_size :: "nat option"

datatype form_value = FileField upload_file | TextField string

datatype body =
    NoBody
  | FormData "(string \<times> form_value) list"
  | JsonBody "(string \<times> json_value) list"

record request =
  req_method :: string
  req_url :: string
  req_headers :: "(string \<times> string) list"
  req_body :: body

subsection \<open>The world outside the component\<close>

datatype toast = ToastSuccess string | ToastError string | ToastInfo string

text \<open>
  \<open>localStorage\<close>, and the logs of what the page did: the requests it issued, the
  notifications it raised and the lines it wrote to the console, oldest first.
\<close>

record world =
  localStorage :: "string \<rightharpoonup> string"
  requests :: "request list"
  toasts :: "toast list"
  console :: "(string \<times> thrown) list"

definition fetch :: "request \<Rightarrow> world \<Rightarrow> world" where
  "fetch r w = w\<lparr>requests := requests w @ [r]\<rparr>"

definition toast_success :: "string \<Rightarrow> world \<Rightarrow> world" where
  "toast_success m w = w\<lparr>toasts := toasts w @ [ToastSuccess m]\<rparr>"

definition toast_error :: "string \<Rightarrow> world \<Rightarrow> world" where
  "toast_error m w = w\<lparr>toasts := toasts w @ [ToastError m]\<rparr>"

definition toast_info :: "string \<Rightarrow> world \<Rightarrow> world" where
  "toast_info m w = w\<lparr>toasts := toasts w @ [ToastInfo m]\<rparr>"

definition console_error :: "string \<Rightarrow> thrown \<Rightarrow> world \<Rightarrow> world" where
  "console_error m e w = w\<lparr>console := console w @ [(m, e)]\<rparr>"

definition setItem :: "string \<Rightarrow> string \<Rightarrow> world \<Rightarrow> world" where
  "setItem k v w = w\<lparr>localStorage := (localStorage w)(k \<mapsto> v)\<rparr>"

definition removeItem :: "string \<Rightarrow> world \<Rightarrow> world" where
  "removeItem k w = w\<lparr>localStorage := (localStorage w)(k := None)\<rparr>"

subsection \<open>The configuration module\<close>

text \<open>
  The pages import \<open>API_ENDPOINTS\<close> and \<open>STATIC_VARIABLES\<close> from a configuration module that
  is not among the source files, so the constants they read are parameters of the model.
\<close>

record config =
  UPLOAD_FILE :: string
  PRINT_JOB_STATUS :: string
  PRINT_JOBS :: string
  SHOP_DETAILS :: string
  MIN_COPIES :: int
  MAX_COPIES :: int
  STATUS_PENDING :: string
  STATUS_COMPLETED :: string
  STATUS_EXPIRED :: string

section \<open>The upload page\<close>

text \<open>
  The component's state, one field per \<open>useState\<close> hook that the handlers below read or
  write. \<open>printType\<close>, \<open>printSide\<close> and \<open>jobStatus\<close> are strings: their TypeScript types are
  unions of string literals, and the values the server sends are stored unchecked.
  The shop id is not state: it is read from the query string (\<open>null\<close> when absent) and
  passed to each handler.
\<close>

record UploadPage =
  isShopClosed :: bool
  files :: "upload_file list"
  printType :: string
  printSide :: string
  copies :: int
  isUploading :: bool
  uploadComplete :: bool
  token :: string
  jobStatus :: string

text \<open>
  A handler runs to completion: the values it reads are the ones captured when it was
  called, and what it writes after an \<open>await\<close> are constants or values of the response, so
  the state it leaves is the state it found with those fields overwritten. The answer of the
  server to the request it issues is an argument.
\<close>

subsection \<open>The copies control\<close>

text \<open>\<open>setCopies(parseInt(e.target.value) || MIN_COPIES)\<close>: \<open>NaN\<close> and \<open>0\<close> are falsy.\<close>

definition copies_onChange :: "config \<Rightarrow> string \<Rightarrow> UploadPage \<Rightarrow> UploadPage" where
  "copies_onChange cfg v s =
     s\<lparr>copies := (case parseInt v of
                     None \<Rightarrow> MIN_COPIES cfg
                   | Some n \<Rightarrow> if n = 0 then MIN_COPIES cfg else n)\<rparr>"

definition copies_decrement :: "config \<Rightarrow> UploadPage \<Rightarrow> UploadPage" where
  "copies_decrement cfg s =
     (if copies s > MIN_COPIES cfg then s\<lparr>copies := copies s - 1\<rparr> else s)"

definition copies_increment :: "config \<Rightarrow> UploadPage \<Rightarrow> UploadPage" where
  "copies_increment cfg s =
     (if copies s < MAX_COPIES cfg then s\<lparr>copies := copies s + 1\<rparr> else s)"

subsection \<open>handleSubmit\<close>

record upload_reply =
  token_number :: string

text \<open>The multipart form: every file under \<open>files\<close>, then the three options.\<close>

definition formData :: "UploadPage \<Rightarrow> (string \<times> form_value) list" where
  "formData s =
     map (\<lambda>f. (''files'', FileField f)) (files s) @
     [(''print_type'', TextField (printType s)),
      (''print_side'', TextField (printSide s)),
      (''copies'', TextField (toString (copies s)))]"

definition uploadRequest :: "config \<Rightarrow> string option \<Rightarrow> UploadPage \<Rightarrow> request" where
  "uploadRequest cfg shopId s =
     \<lparr>req_method = ''POST'',
      req_url = UPLOAD_FILE cfg @ ''/'' @ template shopId,
      req_headers = [],
      req_body = FormData (formData s)\<rparr>"

text \<open>
  The \<open>try\<close> block up to the last \<open>await\<close>: the new token, or what is thrown (the rejection
  of \<open>fetch\<close>, the \<open>Error\<close> built from a response that is not ok, or the rejection of reading
  the body).
\<close>

definition uploadOutcome :: "upload_reply fetch_result \<Rightarrow> thrown + string" where
  "uploadOutcome result =
     (case result of
        Inl e \<Rightarrow> Inl e
      | Inr response \<Rightarrow>
          if \<not> ok response then
            (case resp_text response of
               Inl e \<Rightarrow> Inl e
             | Inr errorText \<Rightarrow>
                 Inl (ErrorObject (''Upload failed: '' @ toString (int (resp_status response))
                                     @ '' '' @ errorText)))
          else
            (case resp_json response of
               Inl e \<Rightarrow> Inl e
             | Inr data \<Rightarrow> Inr (token_number data)))"

definition uploadedMessage :: "nat \<Rightarrow> string" where
  "uploadedMessage n =
     toString (int n) @ '' '' @ (if n = 1 then ''file'' else ''files'') @ '' uploaded successfully!''"

definition handleSubmit ::
  "config \<Rightarrow> string option \<Rightarrow> upload_reply fetch_result \<Rightarrow> UploadPage \<times> world \<Rightarrow> UploadPage \<times> world"
where
  "handleSubmit cfg shopId result = (\<lambda>(s, w).
     if length (files s) = 0 then
       (s, toast_error ''Please select at least one file to upload'' w)
     else
       let w1 = fetch (uploadRequest cfg shopId s) w in
       case uploadOutcome result of
         Inr newToken \<Rightarrow>
           (s\<lparr>token := newToken, uploadComplete := True, jobStatus := STATUS_PENDING cfg,
              isUploading := False\<rparr>,
            toast_success (uploadedMessage (length (files s)))
              (setItem (''uploadToken_'' @ template shopId) newToken w1))
       | Inl error \<Rightarrow>
           (s\<lparr>isUploading := False\<rparr>,
            toast_error (case error of
                           ErrorObject message \<Rightarrow> message
                         | OtherValue \<Rightarrow> ''Upload failed. Please try again.'') w1))"

subsection \<open>The submit event of the form\<close>

text \<open>
  \<open>handleSubmit\<close> is the \<open>onSubmit\<close> handler of the form and nothing else calls it. The form
  is rendered only for a shop id that is present, a shop that is open and an upload that is
  not complete. Its submit button is disabled while no file is selected or an upload is
  running. The copies input is a number input with \<open>min\<close> set to \<open>MIN_COPIES\<close>, \<open>max\<close> set to
  \<open>MAX_COPIES\<close> and the value \<open>copies\<close>, and the form does not switch validation off, so the
  browser does not fire the submit event while \<open>copies\<close> is outside these bounds (the step is
  1 from the minimum, which every integer meets).
\<close>

definition formRendered :: "string option \<Rightarrow> UploadPage \<Rightarrow> bool" where
  "formRendered shopId s = (truthy shopId \<and> \<not> isShopClosed s \<and> \<not> uploadComplete s)"

definition submitDisabled :: "UploadPage \<Rightarrow> bool" where
  "submitDisabled s = (length (files s) = 0 \<or> isUploading s)"

definition copiesInputValid :: "config \<Rightarrow> UploadPage \<Rightarrow> bool" where
  "copiesInputValid cfg s = (MIN_COPIES cfg \<le> copies s \<and> copies s \<le> MAX_COPIES cfg)"

definition form_onSubmit ::
  "config \<Rightarrow> string option \<Rightarrow> upload_reply fetch_result \<Rightarrow> UploadPage \<times> world \<Rightarrow> UploadPage \<times> world"
where
  "form_onSubmit cfg shopId result = (\<lambda>(s, w).
     if formRendered shopId s \<and> \<not> submitDisabled s \<and> copiesInputValid cfg s
     then handleSubmit cfg shopId result (s, w)
     else (s, w))"

subsection \<open>checkPreviousUpload\<close>

text \<open>The fields of the job-status answer that the page reads.\<close>

record status_reply =
  reply_status :: string
  reply_fileName :: string
  reply_print_type :: string
  reply_print_side :: string
  reply_copies :: int

definition statusRequest :: "config \<Rightarrow> string \<Rightarrow> request" where
  "statusRequest cfg storedToken =
     \<lparr>req_method = ''GET'',
      req_url = PRINT_JOB_STATUS cfg @ ''/'' @ storedToken,
      req_headers = [],
      req_body = NoBody\<rparr>"

definition statusOutcome :: "status_reply fetch_result \<Rightarrow> thrown + status_reply" where
  "statusOutcome result =
     (case result of
        Inl e \<Rightarrow> Inl e
      | Inr response \<Rightarrow>
          if \<not> ok response then Inl (ErrorObject ''Failed to fetch job status'')
          else resp_json response)"

definition checkPreviousUpload ::
  "config \<Rightarrow> string option \<Rightarrow> status_reply fetch_result \<Rightarrow> UploadPage \<times> world \<Rightarrow> UploadPage \<times> world"
where
  "checkPreviousUpload cfg shopId result = (\<lambda>(s, w).
     let storedToken = localStorage w (''uploadToken_'' @ template shopId) in
     if truthy storedToken \<and> truthy shopId then
       let w1 = fetch (statusRequest cfg (template storedToken)) w in
       case statusOutcome result of
         Inr job \<Rightarrow>
           (s\<lparr>token := template storedToken,
              jobStatus := reply_status job,
              uploadComplete := True,
              files := [\<lparr>file_name = reply_fileName job, file_size = None\<rparr>],
              printType := reply_print_type job,
              printSide := reply_print_side job,
              copies := reply_copies job\<rparr>,
            w1)
       | Inl error \<Rightarrow> (s, removeItem (''uploadToken_'' @ template shopId) w1)
     else (s, w))"

subsection \<open>Push events\<close>

text \<open>
  The handlers are registered by an effect that depends on \<open>token\<close>, so they are registered
  again whenever it changes and the token they compare with is the one in the state.
\<close>

record job_update =
  update_id :: string
  update_token :: string
  update_status :: string

record batch_update =
  batch_token :: string
  batch_status :: string
  batch_count :: nat

definition upload_shopStatusUpdate :: "bool \<Rightarrow> UploadPage \<Rightarrow> UploadPage" where
  "upload_shopStatusUpdate accepting s = s\<lparr>isShopClosed := \<not> accepting\<rparr>"

definition upload_jobStatusUpdate :: "job_update \<Rightarrow> UploadPage \<times> world \<Rightarrow> UploadPage \<times> world" where
  "upload_jobStatusUpdate updatedJob = (\<lambda>(s, w).
     if update_token updatedJob = token s then
       (s\<lparr>jobStatus := update_status updatedJob\<rparr>,
        if update_status updatedJob = ''completed'' then
          toast_success (''Job #'' @ token s @ '' is completed!'') w
        else if update_status updatedJob = ''deleted'' then
          toast_error (''Job #'' @ token s @ '' was declined/deleted.'') w
        else w)
     else (s, w))"

definition upload_batchStatusUpdate :: "batch_update \<Rightarrow> UploadPage \<times> world \<Rightarrow> UploadPage \<times> world" where
  "upload_batchStatusUpdate update = (\<lambda>(s, w).
     if batch_token update = token s then
       (s\<lparr>jobStatus := batch_status update\<rparr>,
        if batch_status update = ''completed'' then
          toast_success (''All jobs for #'' @ token s @ '' completed!'') w
        else if batch_status update = ''deleted'' then
          toast_error (''All jobs for #'' @ token s @ '' were declined/deleted.'') w
        else w)
     else (s, w))"

section \<open>The shop dashboard\<close>

subsection \<open>Print jobs\<close>

text \<open>
  The fields of a print job carry the prefix \<open>job_\<close>: \<open>id\<close>, \<open>token\<close>, \<open>copies\<close> and others
  already name other things. A \<open>Date\<close> is kept as what it was built from: the value of the
  event's \<open>uploadTime\<close>, or the reading of the clock at \<open>new Date()\<close>.
\<close>

datatype jsdate = DateOf string | DateAt int

record PrintJobFile =
  fileName :: string
  filePath :: string
  fileSize :: int

record PrintJob =
  job_id :: string
  job_token :: string
  job_printType :: string
  job_printSide :: string
  job_copies :: int
  job_status :: string
  job_uploadTime :: jsdate
  job_files :: "PrintJobFile list"

text \<open>
  The payload of a \<open>newBatchPrintJob\<close> event is untyped in the source. It is taken to be a
  job document as the server stores it, with the fields that \<open>fetchJobs\<close> reads from such
  documents unconditionally (\<open>_id\<close>, \<open>token_number\<close>, \<open>print_type\<close>, \<open>print_side\<close>, and
  \<open>fileName\<close> of a file), which may carry in addition the names the handler looks at first;
  those, and the fields the handler gives a default, are optional.
\<close>

record new_file =
  new_fileName :: string
  new_filePath :: "string option"
  new_file_path :: string
  new_fileSize :: "int option"

record new_job =
  new_id :: "string option"
  new__id :: string
  new_token :: "string option"
  new_token_number :: string
  new_printType :: "string option"
  new_print_type :: string
  new_printSide :: "string option"
  new_print_side :: string
  new_copies :: "int option"
  new_status :: "string option"
  new_uploadTime :: "string option"
  new_files :: "new_file list option"

text \<open>\<open>a || b\<close> for a string \<open>a\<close> that may be missing or empty, and for a number.\<close>

definition or_string :: "string option \<Rightarrow> string \<Rightarrow> string" where
  "or_string a b = (case a of None \<Rightarrow> b | Some x \<Rightarrow> if x = [] then b else x)"

definition or_number :: "int option \<Rightarrow> int \<Rightarrow> int" where
  "or_number a b = (case a of None \<Rightarrow> b | Some x \<Rightarrow> if x = 0 then b else x)"

definition formatFile :: "new_file \<Rightarrow> PrintJobFile" where
  "formatFile file =
     \<lparr>fileName = new_fileName file,
      filePath = or_string (new_filePath file) (new_file_path file),
      fileSize = or_number (new_fileSize file) 0\<rparr>"

definition formattedJob :: "new_job \<Rightarrow> int \<Rightarrow> PrintJob" where
  "formattedJob newJob now =
     \<lparr>job_id = or_string (new_id newJob) (new__id newJob),
      job_token = or_string (new_token newJob) (new_token_number newJob),
      job_printType = or_string (new_printType newJob) (new_print_type newJob),
      job_printSide = or_string (new_printSide newJob) (new_print_side newJob),
      job_copies = or_number (new_copies newJob) 1,
      job_status = or_string (new_status newJob) ''pending'',
      job_uploadTime = (if truthy (new_uploadTime newJob)
                        then DateOf (template (new_uploadTime newJob)) else DateAt now),
      job_files = (case new_files newJob of
                     Some fs \<Rightarrow> map formatFile fs
                   | None \<Rightarrow> [])\<rparr>"

subsection \<open>State\<close>

text \<open>
  The component's state, but for \<open>shop\<close>, the untyped shop document shown in the QR-code
  dialogue, which no handler below reads or writes.
\<close>

record Dashboard =
  printJobs :: "PrintJob list"
  isLoading :: bool
  activeTab :: string
  showQRModal :: bool
  searchQuery :: string
  isAcceptingUploads :: bool

definition initialDashboard :: "config \<Rightarrow> Dashboard" where
  "initialDashboard cfg =
     \<lparr>printJobs = [], isLoading = True, activeTab = STATUS_PENDING cfg, showQRModal = False,
      searchQuery = [], isAcceptingUploads = False\<rparr>"

text \<open>\<open>getToken\<close> and \<open>getShopId\<close> come from a module that is not among the source files.\<close>

record auth =
  getToken :: "string option"
  getShopId :: "string option"

subsection \<open>Push events\<close>

record roster_update =
  roster_id :: string
  roster_status :: string

record roster_batch_update =
  roster_token :: string
  roster_batch_status :: string

definition newBatchPrintJob :: "new_job \<Rightarrow> int \<Rightarrow> Dashboard \<times> world \<Rightarrow> Dashboard \<times> world" where
  "newBatchPrintJob newJob now = (\<lambda>(s, w).
     let job = formattedJob newJob now in
     (s\<lparr>printJobs := (if list_ex (\<lambda>j. job_id j = job_id job) (printJobs s) then printJobs s
                       else job # printJobs s)\<rparr>,
      toast_success (''New print job received with '' @ toString (int (length (job_files job)))
                       @ '' files!'') w))"

definition dashboard_jobStatusUpdate ::
  "roster_update \<Rightarrow> Dashboard \<times> world \<Rightarrow> Dashboard \<times> world"
where
  "dashboard_jobStatusUpdate update = (\<lambda>(s, w).
     (s\<lparr>printJobs := map (\<lambda>job. if job_id job = roster_id update
                                  then job\<lparr>job_status := roster_status update\<rparr> else job)
                          (printJobs s)\<rparr>,
      if roster_status update = ''completed'' then toast_success ''Job marked as completed'' w
      else if roster_status update = ''deleted'' then toast_success ''Job deleted successfully'' w
      else toast_info (''Job status updated to '' @ roster_status update) w))"

definition dashboard_batchStatusUpdate ::
  "roster_batch_update \<Rightarrow> Dashboard \<times> world \<Rightarrow> Dashboard \<times> world"
where
  "dashboard_batchStatusUpdate update = (\<lambda>(s, w).
     (s\<lparr>printJobs := map (\<lambda>job. if job_token job = roster_token update
                                  then job\<lparr>job_status := roster_batch_status update\<rparr> else job)
                          (printJobs s)\<rparr>,
      if roster_batch_status update = ''completed'' then
        toast_success ''Jobs marked as completed'' w
      else if roster_batch_status update = ''deleted'' then
        toast_success ''Jobs deleted successfully'' w
      else toast_info (''Jobs status updated to '' @ roster_batch_status update) w))"

datatype push_event =
    NewBatchPrintJob new_job int
  | JobStatusUpdate roster_update
  | BatchStatusUpdate roster_batch_update

fun dashboard_push :: "push_event \<Rightarrow> Dashboard \<times> world \<Rightarrow> Dashboard \<times> world" where
  "dashboard_push (NewBatchPrintJob newJob now) = newBatchPrintJob newJob now"
| "dashboard_push (JobStatusUpdate update) = dashboard_jobStatusUpdate update"
| "dashboard_push (BatchStatusUpdate update) = dashboard_batchStatusUpdate update"

subsection \<open>Owner actions\<close>

definition bearer :: "auth \<Rightarrow> string" where
  "bearer a = ''Bearer '' @ template (getToken a)"

definition markCompletedRequest :: "config \<Rightarrow> auth \<Rightarrow> string \<Rightarrow> request" where
  "markCompletedRequest cfg a jobId =
     \<lparr>req_method = ''PUT'',
      req_url = PRINT_JOBS cfg @ ''/'' @ jobId,
      req_headers = [(''Content-Type'', ''application/json''), (''Authorization'', bearer a)],
      req_body = JsonBody [(''status'', JString ''completed'')]\<rparr>"

definition handleMarkAsCompleted ::
  "config \<Rightarrow> auth \<Rightarrow> string \<Rightarrow> 'j fetch_result \<Rightarrow> Dashboard \<times> world \<Rightarrow> Dashboard \<times> world"
where
  "handleMarkAsCompleted cfg a jobId result = (\<lambda>(s, w).
     let w1 = fetch (markCompletedRequest cfg a jobId) w;
         failure = (case result of
                      Inl e \<Rightarrow> Some e
                    | Inr response \<Rightarrow>
                        if \<not> ok response then Some (ErrorObject ''Failed to update job status'')
                        else None)
     in case failure of
          None \<Rightarrow> (s, toast_success ''Job marked as completed'' w1)
        | Some error \<Rightarrow>
            (s, toast_error ''Failed to mark job as completed''
                  (console_error ''Error marking job as completed:'' error w1)))"

definition deleteRequest :: "config \<Rightarrow> auth \<Rightarrow> string \<Rightarrow> request" where
  "deleteRequest cfg a jobId =
     \<lparr>req_method = ''DELETE'',
      req_url = PRINT_JOBS cfg @ ''/'' @ jobId,
      req_headers = [(''Authorization'', bearer a)],
      req_body = NoBody\<rparr>"

text \<open>\<open>confirmed\<close> is the answer of the user to the \<open>confirm\<close> dialogue.\<close>

definition handleDeleteJob ::
  "config \<Rightarrow> auth \<Rightarrow> string \<Rightarrow> bool \<Rightarrow> 'j fetch_result \<Rightarrow> Dashboard \<times> world \<Rightarrow> Dashboard \<times> world"
where
  "handleDeleteJob cfg a jobId confirmed result = (\<lambda>(s, w).
     if \<not> confirmed then (s, w)
     else
       let w1 = fetch (deleteRequest cfg a jobId) w;
           failure = (case result of
                        Inl e \<Rightarrow> Some e
                      | Inr response \<Rightarrow>
                          if \<not> ok response then Some (ErrorObject ''Failed to delete job'')
                          else None)
       in case failure of
            None \<Rightarrow> (s, toast_success ''Job deleted successfully'' w1)
          | Some error \<Rightarrow>
              (s, toast_error ''Failed to delete job''
                    (console_error ''Error deleting job:'' error w1)))"

definition toggleRequest :: "config \<Rightarrow> auth \<Rightarrow> Dashboard \<Rightarrow> request" where
  "toggleRequest cfg a s =
     \<lparr>req_method = ''PUT'',
      req_url = SHOP_DETAILS cfg @ ''/'' @ template (getShopId a) @ ''/toggle-uploads'',
      req_headers = [(''Authorization'', bearer a), (''Content-Type'', ''application/json'')],
      req_body = JsonBody [(''isAcceptingUploads'', JBool (\<not> isAcceptingUploads s))]\<rparr>"

text \<open>Whether the \<open>try\<close> block of a handler that only tests \<open>response.ok\<close> runs through.\<close>

definition succeeded :: "'j fetch_result \<Rightarrow> bool" where
  "succeeded result = (case result of Inl e \<Rightarrow> False | Inr response \<Rightarrow> ok response)"

definition handleToggleUploads ::
  "config \<Rightarrow> auth \<Rightarrow> 'j fetch_result \<Rightarrow> Dashboard \<times> world \<Rightarrow> Dashboard \<times> world"
where
  "handleToggleUploads cfg a result = (\<lambda>(s, w).
     let w1 = fetch (toggleRequest cfg a s) w in
     if succeeded result then
       (s\<lparr>isAcceptingUploads := \<not> isAcceptingUploads s\<rparr>,
        toast_success (''Upload form '' @ (if \<not> isAcceptingUploads s then ''enabled''
                                           else ''disabled'')) w1)
     else (s, toast_error ''Failed to update shop status'' w1))"

subsection \<open>Tabs and search\<close>

text \<open>The tab buttons the page renders; a click on one calls \<open>setActiveTab\<close> with its name.\<close>

definition tabs :: "string list" where
  "tabs = [''pending'', ''completed'', ''expired'']"

definition setActiveTab :: "string \<Rightarrow> Dashboard \<Rightarrow> Dashboard" where
  "setActiveTab tab s = s\<lparr>activeTab := tab\<rparr>"

definition setSearchQuery :: "string \<Rightarrow> Dashboard \<Rightarrow> Dashboard" where
  "setSearchQuery q s = s\<lparr>searchQuery := q\<rparr>"

text \<open>\<open>toLowerCase\<close> on ASCII letters, and \<open>includes\<close>: whether the argument occurs in the string.\<close>

definition toLowerCase :: "string \<Rightarrow> string" where
  "toLowerCase str =
     map (\<lambda>c. if 65 \<le> (of_char c :: nat) \<and> (of_char c :: nat) \<le> 90
               then char_of (of_char c + 32 :: nat) else c) str"

fun includes_str :: "string \<Rightarrow> string \<Rightarrow> bool" where
  "includes_str [] searchString = (searchString = [])"
| "includes_str (c # cs) searchString =
     (take (length searchString) (c # cs) = searchString \<or> includes_str cs searchString)"

definition filteredJobs :: "Dashboard \<Rightarrow> PrintJob list" where
  "filteredJobs s = filter (\<lambda>job. job_status job = activeTab s) (printJobs s)"

definition filteredAndSearchedJobs :: "Dashboard \<Rightarrow> PrintJob list" where
  "filteredAndSearchedJobs s =
     filter (\<lambda>job. includes_str (toLowerCase (job_token job)) (toLowerCase (searchQuery s)))
       (filteredJobs s)"

subsection \<open>The dashboard as a reducer\<close>

text \<open>
  The events modelled above, as one type. A click on a tab names the button by its position
  in \<open>tabs\<close>; there is no button beyond the last. The handlers left out are the two fetches
  on mount (\<open>fetchJobs\<close> sets the roster once, when the page loads), the downloads and the
  QR-code dialogue; none of them calls \<open>setActiveTab\<close>.
\<close>

datatype dashboard_event =
    Push push_event
  | MarkAsCompleted string "unit fetch_result"
  | DeleteJob string bool "unit fetch_result"
  | ToggleUploads "unit fetch_result"
  | TabClick nat
  | SearchInput string

fun dashboard_step ::
  "config \<Rightarrow> auth \<Rightarrow> dashboard_event \<Rightarrow> Dashboard \<times> world \<Rightarrow> Dashboard \<times> world"
where
  "dashboard_step cfg a (Push e) sw = dashboard_push e sw"
| "dashboard_step cfg a (MarkAsCompleted jobId result) sw = handleMarkAsCompleted cfg a jobId result sw"
| "dashboard_step cfg a (DeleteJob jobId confirmed result) sw =
     handleDeleteJob cfg a jobId confirmed result sw"
| "dashboard_step cfg a (ToggleUploads result) sw = handleToggleUploads cfg a result sw"
| "dashboard_step cfg a (TabClick i) (s, w) =
     (if i < length tabs then (setActiveTab (tabs ! i) s, w) else (s, w))"
| "dashboard_step cfg a (SearchInput q) (s, w) = (setSearchQuery q s, w)"

section \<open>Example values\<close>

text \<open>A configuration, a page with one file selected, a roster and an empty world, for the
  concrete runs below.\<close>

definition example_config :: config where
  "example_config =
     \<lparr>UPLOAD_FILE = ''/api/upload'', PRINT_JOB_STATUS = ''/api/status'',
      PRINT_JOBS = ''/api/jobs'', SHOP_DETAILS = ''/api/shops'',
      MIN_COPIES = 1, MAX_COPIES = 100,
      STATUS_PENDING = ''pending'', STATUS_COMPLETED = ''completed'',
      STATUS_EXPIRED = ''expired''\<rparr>"

definition example_page :: UploadPage where
  "example_page =
     \<lparr>isShopClosed = False,
      files = [\<lparr>file_name = ''a.pdf'', file_size = Some 1024\<rparr>],
      printType = ''bw'', printSide = ''single'', copies = 1,
      isUploading = False, uploadComplete = False, token = [], jobStatus = ''pending''\<rparr>"

definition empty_world :: world where
  "empty_world = \<lparr>localStorage = Map.empty, requests = [], toasts = [], console = []\<rparr>"

definition stored_world :: world where
  "stored_world = empty_world\<lparr>localStorage := [''uploadToken_shop1'' \<mapsto> ''A17'']\<rparr>"

definition example_reply :: status_reply where
  "example_reply =
     \<lparr>reply_status = ''completed'', reply_fileName = ''a.pdf'', reply_print_type = ''color'',
      reply_print_side = ''double'', reply_copies = 3\<rparr>"

definition example_job :: "string \<Rightarrow> string \<Rightarrow> string \<Rightarrow> PrintJob" where
  "example_job i t st =
     \<lparr>job_id = i, job_token = t, job_printType = ''bw'', job_printSide = ''single'',
      job_copies = 1, job_status = st, job_uploadTime = DateAt 0, job_files = []\<rparr>"

definition example_new_job :: "string \<Rightarrow> new_job" where
  "example_new_job i =
     \<lparr>new_id = None, new__id = i, new_token = None, new_token_number = ''B20'',
      new_printType = None, new_print_type = ''color'', new_printSide = None,
      new_print_side = ''double'', new_copies = None, new_status = None,
      new_uploadTime = None, new_files = Some []\<rparr>"

definition example_dashboard :: "PrintJob list \<Rightarrow> Dashboard" where
  "example_dashboard js =
     \<lparr>printJobs = js, isLoading = False, activeTab = ''pending'', showQRModal = False,
      searchQuery = [], isAcceptingUploads = False\<rparr>"

definition example_auth :: auth where
  "example_auth = \<lparr>getToken = Some ''secret'', getShopId = Some ''shop1''\<rparr>"

section \<open>Properties of the upload page\<close>

subsection \<open>Library functions at the values used below\<close>

lemma parseInt_minus_five: "parseInt ''-5'' = Some (- 5)"
  by (simp add: parseInt_def isStrWhiteSpaceChar_def isRadixDigit_def digitValue_def
      radixValue_def)

lemma ok_200: "ok \<lparr>resp_status = 200, resp_text = t, resp_json = j\<rparr>"
  by (simp add: ok_def)

lemma not_ok_404: "\<not> ok \<lparr>resp_status = 404, resp_text = t, resp_json = j\<rparr>"
  by (simp add: ok_def)

lemma not_ok_500: "\<not> ok \<lparr>resp_status = 500, resp_text = t, resp_json = j\<rparr>"
  by (simp add: ok_def)

subsection \<open>The copies control\<close>

text \<open>The two buttons do guard the bounds: neither moves the count across its bound.\<close>

lemma copies_buttons_bounded:
  "MIN_COPIES cfg \<le> copies s \<Longrightarrow> MIN_COPIES cfg \<le> copies (copies_decrement cfg s)"
  "copies s \<le> MAX_COPIES cfg \<Longrightarrow> copies (copies_increment cfg s) \<le> MAX_COPIES cfg"
  by (simp_all add: copies_decrement_def copies_increment_def)

lemma parseInt_three: "parseInt ''3'' = Some 3"
  by (simp add: parseInt_def isStrWhiteSpaceChar_def isRadixDigit_def digitValue_def
      radixValue_def)

lemma parseInt_abc: "parseInt ''abc'' = None"
  by (simp add: parseInt_def isStrWhiteSpaceChar_def isRadixDigit_def digitValue_def)

lemma toString_three: "toString 3 = ''3''"
  by (simp add: toString_def digits10.simps digitChar_def)

lemma handleSubmit_requests:
  assumes "files s \<noteq> []"
  shows "requests (snd (handleSubmit cfg shopId result (s, w))) =
           requests w @ [uploadRequest cfg shopId s]"
  using assms
  by (simp add: handleSubmit_def Let_def fetch_def toast_success_def toast_error_def setItem_def
      split: sum.splits)

text \<open>
  C1. The claim is that an input below the configured minimum is clamped to the minimum
  before submission. It is not: with the minimum 1, typing \<open>-5\<close> leaves \<open>copies\<close> at \<open>-5\<close>, and
  the form, whose copies input is then below its \<open>min\<close>, is not submitted: state and world stay
  as they were.
\<close>

theorem typed_minus_five_not_clamped:
  "MIN_COPIES example_config = 1 \<and>
   copies (copies_onChange example_config ''-5'' example_page) = - 5 \<and>
   form_onSubmit example_config (Some ''shop1'') (Inl OtherValue)
       (copies_onChange example_config ''-5'' example_page, empty_world) =
     (copies_onChange example_config ''-5'' example_page, empty_world)"
  by (simp add: example_config_def copies_onChange_def parseInt_minus_five form_onSubmit_def
      copiesInputValid_def)

text \<open>
  C1, as amended. Whatever is typed into the copies input, a request that the submit event of
  the form issues carries a \<open>copies\<close> field that is at least the configured minimum. An input
  that parses to \<open>NaN\<close> or to \<open>0\<close> is replaced by the minimum; any other input is kept as
  typed, and while the value is below the minimum the form is not submitted: state and world
  stay as they were. A request that is issued is the one upload request, and its \<open>copies\<close>
  field is the decimal form of \<open>copies\<close>.
\<close>

theorem typed_copies_submission:
  assumes "form_onSubmit cfg shopId result (copies_onChange cfg v s, w) = (s', w')"
  shows "(parseInt v = None \<or> parseInt v = Some 0 \<longrightarrow>
            copies (copies_onChange cfg v s) = MIN_COPIES cfg) \<and>
         (\<forall>n. parseInt v = Some n \<and> n \<noteq> 0 \<longrightarrow> copies (copies_onChange cfg v s) = n) \<and>
         (copies (copies_onChange cfg v s) < MIN_COPIES cfg \<longrightarrow>
            s' = copies_onChange cfg v s \<and> w' = w) \<and>
         (requests w' \<noteq> requests w \<longrightarrow>
            MIN_COPIES cfg \<le> copies (copies_onChange cfg v s) \<and>
            requests w' = requests w @ [uploadRequest cfg shopId (copies_onChange cfg v s)] \<and>
            formData (copies_onChange cfg v s) =
              map (\<lambda>f. (''files'', FileField f)) (files s) @
              [(''print_type'', TextField (printType s)),
               (''print_side'', TextField (printSide s)),
               (''copies'', TextField (toString (copies (copies_onChange cfg v s))))])"
proof -
  let ?s = "copies_onChange cfg v s"
  have 1: "parseInt v = None \<or> parseInt v = Some 0 \<longrightarrow> copies ?s = MIN_COPIES cfg"
    by (auto simp add: copies_onChange_def)
  have 2: "\<forall>n. parseInt v = Some n \<and> n \<noteq> 0 \<longrightarrow> copies ?s = n"
    by (simp add: copies_onChange_def)
  have 3: "copies ?s < MIN_COPIES cfg \<longrightarrow> s' = ?s \<and> w' = w"
  proof
    assume "copies ?s < MIN_COPIES cfg"
    then have "\<not> copiesInputValid cfg ?s" by (simp add: copiesInputValid_def)
    with assms show "s' = ?s \<and> w' = w" by (simp add: form_onSubmit_def)
  qed
  have 4: "MIN_COPIES cfg \<le> copies ?s \<and>
           requests w' = requests w @ [uploadRequest cfg shopId ?s] \<and>
           formData ?s =
             map (\<lambda>f. (''files'', FileField f)) (files s) @
             [(''print_type'', TextField (printType s)),
              (''print_side'', TextField (printSide s)),
              (''copies'', TextField (toString (copies ?s)))]"
    if changed: "requests w' \<noteq> requests w"
  proof -
    have gate: "formRendered shopId ?s \<and> \<not> submitDisabled ?s \<and> copiesInputValid cfg ?s"
    proof (rule ccontr)
      assume "\<not> (formRendered shopId ?s \<and> \<not> submitDisabled ?s \<and> copiesInputValid cfg ?s)"
      with assms have "w' = w" by (simp add: form_onSubmit_def)
      with changed show False by simp
    qed
    with assms have run: "handleSubmit cfg shopId result (?s, w) = (s', w')"
      by (simp add: form_onSubmit_def)
    from gate have f: "files ?s \<noteq> []" by (simp add: submitDisabled_def)
    from run have "w' = snd (handleSubmit cfg shopId result (?s, w))" by simp
    with handleSubmit_requests [OF f]
    have "requests w' = requests w @ [uploadRequest cfg shopId ?s]"
      by simp
    moreover from gate have "MIN_COPIES cfg \<le> copies ?s" by (simp add: copiesInputValid_def)
    moreover have "formData ?s =
             map (\<lambda>f. (''files'', FileField f)) (files s) @
             [(''print_type'', TextField (printType s)),
              (''print_side'', TextField (printSide s)),
              (''copies'', TextField (toString (copies ?s)))]"
      by (simp add: formData_def copies_onChange_def)
    ultimately show ?thesis by simp
  qed
  from 1 2 3 4 show ?thesis by blast
qed

theorem typed_copies_submission_witness:
  "copies (copies_onChange example_config ''abc'' example_page) = 1 \<and>
   copies (copies_onChange example_config ''3'' example_page) = 3 \<and>
   snd (form_onSubmit example_config (Some ''shop1'') (Inl OtherValue)
       (copies_onChange example_config ''-5'' example_page, empty_world)) = empty_world \<and>
   map req_body (requests (snd (form_onSubmit example_config (Some ''shop1'') (Inl OtherValue)
       (copies_onChange example_config ''3'' example_page, empty_world)))) =
     [FormData [(''files'', FileField \<lparr>file_name = ''a.pdf'', file_size = Some 1024\<rparr>),
                (''print_type'', TextField ''bw''), (''print_side'', TextField ''single''),
                (''copies'', TextField ''3'')]]"
proof -
  let ?go = "form_onSubmit example_config (Some ''shop1'') (Inl OtherValue)"
  obtain sa wa where ha: "?go (copies_onChange example_config ''abc'' example_page, empty_world) = (sa, wa)"
    by (rule prod.exhaust)
  obtain sb wb where hb: "?go (copies_onChange example_config ''3'' example_page, empty_world) = (sb, wb)"
    by (rule prod.exhaust)
  obtain sc wc where hc: "?go (copies_onChange example_config ''-5'' example_page, empty_world) = (sc, wc)"
    by (rule prod.exhaust)
  from typed_copies_submission [OF ha]
  have a: "copies (copies_onChange example_config ''abc'' example_page) = 1"
    by (simp add: parseInt_abc example_config_def)
  from typed_copies_submission [OF hb]
  have b: "copies (copies_onChange example_config ''3'' example_page) = 3"
    by (simp add: parseInt_three)
  have m5: "copies (copies_onChange example_config ''-5'' example_page) = - 5"
    by (simp add: copies_onChange_def parseInt_minus_five)
  have "MIN_COPIES example_config = 1" by (simp add: example_config_def)
  with m5 have below: "copies (copies_onChange example_config ''-5'' example_page) <
      MIN_COPIES example_config"
    by simp
  from typed_copies_submission [OF hc, THEN conjunct2, THEN conjunct2, THEN conjunct1] below
  have "sc = copies_onChange example_config ''-5'' example_page \<and> wc = empty_world"
    by (rule mp)
  then have c: "wc = empty_world" by (rule conjunct2)
  have "requests (snd (?go (copies_onChange example_config ''3'' example_page, empty_world))) =
          [uploadRequest example_config (Some ''shop1'')
             (copies_onChange example_config ''3'' example_page)]"
    by (simp add: form_onSubmit_def formRendered_def submitDisabled_def copiesInputValid_def
        truthy_def handleSubmit_requests copies_onChange_def parseInt_three example_page_def
        example_config_def empty_world_def)
  then have changed: "requests wb \<noteq> requests empty_world"
    unfolding hb by (simp add: empty_world_def)
  from typed_copies_submission [OF hb] changed
  have "requests wb = requests empty_world @ [uploadRequest example_config (Some ''shop1'')
            (copies_onChange example_config ''3'' example_page)] \<and>
        formData (copies_onChange example_config ''3'' example_page) =
          map (\<lambda>f. (''files'', FileField f)) (files example_page) @
          [(''print_type'', TextField (printType example_page)),
           (''print_side'', TextField (printSide example_page)),
           (''copies'', TextField (toString (copies (copies_onChange example_config ''3'' example_page))))]"
    by blast
  then have r: "requests wb = requests empty_world @ [uploadRequest example_config (Some ''shop1'')
            (copies_onChange example_config ''3'' example_page)]"
    and f: "formData (copies_onChange example_config ''3'' example_page) =
          map (\<lambda>f. (''files'', FileField f)) (files example_page) @
          [(''print_type'', TextField (printType example_page)),
           (''print_side'', TextField (printSide example_page)),
           (''copies'', TextField (toString (copies (copies_onChange example_config ''3'' example_page))))]"
    by (rule conjunct1, rule conjunct2)
  from r have "map req_body (requests wb) =
      [FormData (formData (copies_onChange example_config ''3'' example_page))]"
    by (simp add: uploadRequest_def empty_world_def)
  also have "formData (copies_onChange example_config ''3'' example_page) =
      map (\<lambda>f. (''files'', FileField f)) (files example_page) @
      [(''print_type'', TextField (printType example_page)),
       (''print_side'', TextField (printSide example_page)),
       (''copies'', TextField ''3'')]"
    by (simp only: f b toString_three)
  also have "\<dots> = [(''files'', FileField \<lparr>file_name = ''a.pdf'', file_size = Some 1024\<rparr>),
                (''print_type'', TextField ''bw''), (''print_side'', TextField ''single''),
                (''copies'', TextField ''3'')]"
    by (simp add: example_page_def)
  finally have d: "map req_body (requests wb) =
     [FormData [(''files'', FileField \<lparr>file_name = ''a.pdf'', file_size = Some 1024\<rparr>),
                (''print_type'', TextField ''bw''), (''print_side'', TextField ''single''),
                (''copies'', TextField ''3'')]]" .
  from a b c d show ?thesis unfolding hb hc by simp
qed

subsection \<open>Submitting\<close>

text \<open>
  C2. A submission with a non-empty file list issues exactly one request, a \<open>POST\<close> to
  \<open>UPLOAD_FILE/shopId\<close> that carries the form. When the answer is a 2xx response whose JSON
  carries the token, the token is stored in \<open>localStorage\<close> under \<open>uploadToken_shopId\<close> and in
  the page, the page shows the upload as complete with the configured pending status, and one
  success notification is raised.
\<close>

theorem handleSubmit_success:
  assumes "files s \<noteq> []"
    and "handleSubmit cfg (Some shopId) result (s, w) = (s', w')"
  shows "requests w' = requests w @ [uploadRequest cfg (Some shopId) s] \<and>
         req_method (uploadRequest cfg (Some shopId) s) = ''POST'' \<and>
         req_url (uploadRequest cfg (Some shopId) s) = UPLOAD_FILE cfg @ ''/'' @ shopId \<and>
         req_body (uploadRequest cfg (Some shopId) s) = FormData (formData s) \<and>
         (\<forall>response data.
            result = Inr response \<and> ok response \<and> resp_json response = Inr data \<longrightarrow>
            localStorage w' = (localStorage w)(''uploadToken_'' @ shopId \<mapsto> token_number data) \<and>
            token s' = token_number data \<and>
            uploadComplete s' \<and>
            jobStatus s' = STATUS_PENDING cfg \<and>
            toasts w' = toasts w @ [ToastSuccess (uploadedMessage (length (files s)))])"
proof -
  from assms(2) have "w' = snd (handleSubmit cfg (Some shopId) result (s, w))" by simp
  with assms(1) have 1: "requests w' = requests w @ [uploadRequest cfg (Some shopId) s]"
    by (simp add: handleSubmit_def Let_def fetch_def toast_success_def toast_error_def setItem_def
        split: sum.splits)
  have 2: "req_method (uploadRequest cfg (Some shopId) s) = ''POST'' \<and>
           req_url (uploadRequest cfg (Some shopId) s) = UPLOAD_FILE cfg @ ''/'' @ shopId \<and>
           req_body (uploadRequest cfg (Some shopId) s) = FormData (formData s)"
    by (simp add: uploadRequest_def template_def)
  have 3: "localStorage w' = (localStorage w)(''uploadToken_'' @ shopId \<mapsto> token_number data) \<and>
           token s' = token_number data \<and> uploadComplete s' \<and> jobStatus s' = STATUS_PENDING cfg \<and>
           toasts w' = toasts w @ [ToastSuccess (uploadedMessage (length (files s)))]"
    if "result = Inr response" and "ok response" and "resp_json response = Inr data"
    for response data
  proof -
    from that have "uploadOutcome result = Inr (token_number data)"
      by (simp add: uploadOutcome_def)
    with assms show ?thesis
      by (auto simp add: handleSubmit_def Let_def fetch_def toast_success_def setItem_def
          template_def)
  qed
  from 1 2 3 show ?thesis by blast
qed

theorem handleSubmit_success_witness:
  "localStorage (snd (handleSubmit example_config (Some ''shop1'')
      (Inr \<lparr>resp_status = 200, resp_text = Inr [], resp_json = Inr \<lparr>token_number = ''A17''\<rparr>\<rparr>)
      (example_page, empty_world))) ''uploadToken_shop1'' = Some ''A17'' \<and>
   length (requests (snd (handleSubmit example_config (Some ''shop1'')
      (Inr \<lparr>resp_status = 200, resp_text = Inr [], resp_json = Inr \<lparr>token_number = ''A17''\<rparr>\<rparr>)
      (example_page, empty_world)))) = 1 \<and>
   jobStatus (fst (handleSubmit example_config (Some ''shop1'')
      (Inr \<lparr>resp_status = 200, resp_text = Inr [], resp_json = Inr \<lparr>token_number = ''A17''\<rparr>\<rparr>)
      (example_page, empty_world))) = ''pending'' \<and>
   uploadComplete (fst (handleSubmit example_config (Some ''shop1'')
      (Inr \<lparr>resp_status = 200, resp_text = Inr [], resp_json = Inr \<lparr>token_number = ''A17''\<rparr>\<rparr>)
      (example_page, empty_world)))"
proof -
  let ?response = "\<lparr>resp_status = 200, resp_text = Inr [],
                    resp_json = Inr \<lparr>token_number = ''A17''\<rparr>\<rparr>"
  obtain s' w' where h: "handleSubmit example_config (Some ''shop1'') (Inr ?response)
      (example_page, empty_world) = (s', w')"
    by (rule prod.exhaust)
  have 1: "files example_page \<noteq> []" by (simp add: example_page_def)
  from handleSubmit_success [OF 1 h]
  have "localStorage w' ''uploadToken_shop1'' = Some ''A17'' \<and> length (requests w') = 1 \<and>
        jobStatus s' = ''pending'' \<and> uploadComplete s'"
    by (simp add: ok_200 empty_world_def example_config_def)
  then show ?thesis unfolding h by simp
qed

text \<open>
  C3. A submission that does not succeed (\<open>fetch\<close> rejects, the response is not 2xx, or its
  body cannot be read) raises one error notification and leaves the selected files, the
  print type and side, the copies, the token in the page and in \<open>localStorage\<close>, the
  upload-complete flag and the job status as they were; the one request it issued is not
  repeated.
\<close>

theorem handleSubmit_failure:
  assumes "files s \<noteq> []"
    and "\<And>response data. result = Inr response \<Longrightarrow> ok response \<Longrightarrow> resp_json response \<noteq> Inr data"
    and "handleSubmit cfg shopId result (s, w) = (s', w')"
  shows "files s' = files s \<and> printType s' = printType s \<and> printSide s' = printSide s \<and>
         copies s' = copies s \<and> token s' = token s \<and> uploadComplete s' = uploadComplete s \<and>
         jobStatus s' = jobStatus s \<and>
         localStorage w' = localStorage w \<and>
         requests w' = requests w @ [uploadRequest cfg shopId s] \<and>
         (\<exists>m. toasts w' = toasts w @ [ToastError m])"
proof -
  have "\<exists>e. uploadOutcome result = Inl e"
  proof (cases result)
    case (Inl e)
    then show ?thesis by (simp add: uploadOutcome_def)
  next
    case (Inr response)
    show ?thesis
    proof (cases "ok response")
      case True
      with Inr assms(2) obtain e where "resp_json response = Inl e"
        by (cases "resp_json response") auto
      with Inr True show ?thesis by (simp add: uploadOutcome_def)
    next
      case False
      with Inr show ?thesis by (cases "resp_text response") (simp_all add: uploadOutcome_def)
    qed
  qed
  then obtain e where "uploadOutcome result = Inl e" ..
  then show ?thesis
    using assms(1,3)
    by (auto simp add: handleSubmit_def Let_def fetch_def toast_error_def)
qed

theorem handleSubmit_failure_witness:
  "files (fst (handleSubmit example_config (Some ''shop1'')
      (Inr \<lparr>resp_status = 500, resp_text = Inr ''boom'', resp_json = Inl OtherValue\<rparr>)
      (example_page, empty_world))) = files example_page \<and>
   localStorage (snd (handleSubmit example_config (Some ''shop1'')
      (Inr \<lparr>resp_status = 500, resp_text = Inr ''boom'', resp_json = Inl OtherValue\<rparr>)
      (example_page, empty_world))) = Map.empty \<and>
   length (requests (snd (handleSubmit example_config (Some ''shop1'')
      (Inr \<lparr>resp_status = 500, resp_text = Inr ''boom'', resp_json = Inl OtherValue\<rparr>)
      (example_page, empty_world)))) = 1 \<and>
   \<not> uploadComplete (fst (handleSubmit example_config (Some ''shop1'') (Inl (ErrorObject ''Failed to fetch''))
      (example_page, empty_world))) \<and>
   length (toasts (snd (handleSubmit example_config (Some ''shop1'') (Inl (ErrorObject ''Failed to fetch''))
      (example_page, empty_world)))) = 1"
proof -
  let ?response = "\<lparr>resp_status = 500, resp_text = Inr ''boom'',
                    resp_json = (Inl OtherValue :: thrown + upload_reply)\<rparr>"
  obtain s1 w1 where h1: "handleSubmit example_config (Some ''shop1'') (Inr ?response)
      (example_page, empty_world) = (s1, w1)"
    by (rule prod.exhaust)
  obtain s2 w2 where h2: "handleSubmit example_config (Some ''shop1'')
      (Inl (ErrorObject ''Failed to fetch'')) (example_page, empty_world) = (s2, w2)"
    by (rule prod.exhaust)
  have 1: "files example_page \<noteq> []" by (simp add: example_page_def)
  have a: "\<And>response data. Inr ?response = Inr response \<Longrightarrow> ok response \<Longrightarrow>
             resp_json response \<noteq> Inr data"
    by (auto simp add: ok_def)
  have b: "\<And>response data. (Inl (ErrorObject ''Failed to fetch'') :: upload_reply fetch_result) =
             Inr response \<Longrightarrow> ok response \<Longrightarrow> resp_json response \<noteq> Inr data"
    by simp
  from handleSubmit_failure [OF 1 a h1] handleSubmit_failure [OF 1 b h2]
  show ?thesis unfolding h1 h2
    by (auto simp add: empty_world_def example_page_def)
qed

subsection \<open>Push events\<close>

text \<open>
  C4. A single-job or batch status event whose token equals the token the page holds sets
  the page's job status to the status of the event (and changes nothing else of the state);
  an event with another token leaves state and world as they were.
\<close>

theorem upload_push_status:
  "(update_token u = token s \<longrightarrow>
      fst (upload_jobStatusUpdate u (s, w)) = s\<lparr>jobStatus := update_status u\<rparr>) \<and>
   (update_token u \<noteq> token s \<longrightarrow> upload_jobStatusUpdate u (s, w) = (s, w)) \<and>
   (batch_token b = token s \<longrightarrow>
      fst (upload_batchStatusUpdate b (s, w)) = s\<lparr>jobStatus := batch_status b\<rparr>) \<and>
   (batch_token b \<noteq> token s \<longrightarrow> upload_batchStatusUpdate b (s, w) = (s, w))"
  by (simp add: upload_jobStatusUpdate_def upload_batchStatusUpdate_def)

theorem upload_push_status_witness:
  "jobStatus (fst (upload_jobStatusUpdate
      \<lparr>update_id = ''j1'', update_token = ''A17'', update_status = ''completed''\<rparr>
      (example_page\<lparr>token := ''A17''\<rparr>, empty_world))) = ''completed'' \<and>
   jobStatus (fst (upload_batchStatusUpdate
      \<lparr>batch_token = ''A17'', batch_status = ''deleted'', batch_count = 2\<rparr>
      (example_page\<lparr>token := ''A17''\<rparr>, empty_world))) = ''deleted'' \<and>
   upload_jobStatusUpdate
      \<lparr>update_id = ''j2'', update_token = ''B20'', update_status = ''completed''\<rparr>
      (example_page\<lparr>token := ''A17''\<rparr>, empty_world) =
     (example_page\<lparr>token := ''A17''\<rparr>, empty_world) \<and>
   upload_batchStatusUpdate
      \<lparr>batch_token = ''B20'', batch_status = ''deleted'', batch_count = 2\<rparr>
      (example_page\<lparr>token := ''A17''\<rparr>, empty_world) =
     (example_page\<lparr>token := ''A17''\<rparr>, empty_world)"
  using
    upload_push_status [of "\<lparr>update_id = ''j1'', update_token = ''A17'', update_status = ''completed''\<rparr>"
      "example_page\<lparr>token := ''A17''\<rparr>" empty_world
      "\<lparr>batch_token = ''A17'', batch_status = ''deleted'', batch_count = 2\<rparr>"]
    upload_push_status [of "\<lparr>update_id = ''j2'', update_token = ''B20'', update_status = ''completed''\<rparr>"
      "example_page\<lparr>token := ''A17''\<rparr>" empty_world
      "\<lparr>batch_token = ''B20'', batch_status = ''deleted'', batch_count = 2\<rparr>"]
  by simp

subsection \<open>Recovering a stored token\<close>

text \<open>
  C6. On load with a non-empty token stored under \<open>uploadToken_shopId\<close> for a non-empty shop
  id, the page issues exactly one request, a \<open>GET\<close> to \<open>PRINT_JOB_STATUS/token\<close> (so no upload),
  and raises no notification. When the answer is a 2xx response whose JSON can be read, the
  job status, print type, print side, copies and the list of file names are those of the
  answer, the token is the stored one and the upload is marked complete. In every other case
  the stored token is removed from \<open>localStorage\<close> and the state of the page is unchanged.
\<close>

theorem checkPreviousUpload_recovery:
  assumes "localStorage w (''uploadToken_'' @ shopId) = Some storedToken"
    and "storedToken \<noteq> []" and "shopId \<noteq> []"
    and "checkPreviousUpload cfg (Some shopId) result (s, w) = (s', w')"
  shows "requests w' = requests w @ [statusRequest cfg storedToken] \<and>
         req_method (statusRequest cfg storedToken) = ''GET'' \<and>
         req_url (statusRequest cfg storedToken) = PRINT_JOB_STATUS cfg @ ''/'' @ storedToken \<and>
         toasts w' = toasts w \<and>
         (\<forall>response job. result = Inr response \<and> ok response \<and> resp_json response = Inr job \<longrightarrow>
            jobStatus s' = reply_status job \<and> printType s' = reply_print_type job \<and>
            printSide s' = reply_print_side job \<and> copies s' = reply_copies job \<and>
            map file_name (files s') = [reply_fileName job] \<and>
            uploadComplete s' \<and> token s' = storedToken \<and> localStorage w' = localStorage w) \<and>
         ((\<forall>response job. result = Inr response \<and> ok response \<longrightarrow> resp_json response \<noteq> Inr job) \<longrightarrow>
            localStorage w' = (localStorage w)(''uploadToken_'' @ shopId := None) \<and> s' = s)"
  using assms
  by (cases result)
     (auto simp add: checkPreviousUpload_def statusOutcome_def Let_def fetch_def removeItem_def
        statusRequest_def template_def truthy_def split: sum.splits if_splits)

theorem checkPreviousUpload_recovery_witness:
  "jobStatus (fst (checkPreviousUpload example_config (Some ''shop1'')
      (Inr \<lparr>resp_status = 200, resp_text = Inr [], resp_json = Inr example_reply\<rparr>)
      (example_page, stored_world))) = ''completed'' \<and>
   copies (fst (checkPreviousUpload example_config (Some ''shop1'')
      (Inr \<lparr>resp_status = 200, resp_text = Inr [], resp_json = Inr example_reply\<rparr>)
      (example_page, stored_world))) = 3 \<and>
   uploadComplete (fst (checkPreviousUpload example_config (Some ''shop1'')
      (Inr \<lparr>resp_status = 200, resp_text = Inr [], resp_json = Inr example_reply\<rparr>)
      (example_page, stored_world))) \<and>
   length (requests (snd (checkPreviousUpload example_config (Some ''shop1'')
      (Inr \<lparr>resp_status = 200, resp_text = Inr [], resp_json = Inr example_reply\<rparr>)
      (example_page, stored_world)))) = 1 \<and>
   localStorage (snd (checkPreviousUpload example_config (Some ''shop1'')
      (Inr \<lparr>resp_status = 404, resp_text = Inr [], resp_json = Inl OtherValue\<rparr>)
      (example_page, stored_world))) ''uploadToken_shop1'' = None \<and>
   toasts (snd (checkPreviousUpload example_config (Some ''shop1'')
      (Inr \<lparr>resp_status = 404, resp_text = Inr [], resp_json = Inl OtherValue\<rparr>)
      (example_page, stored_world))) = []"
proof -
  let ?found = "\<lparr>resp_status = 200, resp_text = Inr [], resp_json = Inr example_reply\<rparr>"
  let ?missing = "\<lparr>resp_status = 404, resp_text = Inr [],
                   resp_json = (Inl OtherValue :: thrown + status_reply)\<rparr>"
  obtain s1 w1 where h1: "checkPreviousUpload example_config (Some ''shop1'') (Inr ?found)
      (example_page, stored_world) = (s1, w1)"
    by (rule prod.exhaust)
  obtain s2 w2 where h2: "checkPreviousUpload example_config (Some ''shop1'') (Inr ?missing)
      (example_page, stored_world) = (s2, w2)"
    by (rule prod.exhaust)
  have a: "localStorage stored_world (''uploadToken_'' @ ''shop1'') = Some ''A17''"
    by (simp add: stored_world_def)
  have b: "''A17'' \<noteq> []" and c: "''shop1'' \<noteq> []" by simp_all
  from checkPreviousUpload_recovery [OF a b c h1]
  have "jobStatus s1 = ''completed'' \<and> copies s1 = 3 \<and> uploadComplete s1 \<and>
        length (requests w1) = 1"
    by (simp add: ok_200 example_reply_def stored_world_def empty_world_def)
  moreover from checkPreviousUpload_recovery [OF a b c h2]
  have "localStorage w2 ''uploadToken_shop1'' = None \<and> toasts w2 = []"
    by (simp add: not_ok_404 stored_world_def empty_world_def)
  ultimately show ?thesis unfolding h1 h2 by simp
qed

section \<open>Properties of the dashboard\<close>

subsection \<open>What each handler does to the roster\<close>

lemma list_ex_job_id: "list_ex (\<lambda>j. job_id j = x) js = (x \<in> job_id ` set js)"
  by (induction js) auto

lemma newBatchPrintJob_printJobs:
  "printJobs (fst (newBatchPrintJob newJob now (s, w))) =
     (if job_id (formattedJob newJob now) \<in> job_id ` set (printJobs s) then printJobs s
      else formattedJob newJob now # printJobs s)"
  by (simp add: newBatchPrintJob_def Let_def list_ex_job_id)

lemma jobStatusUpdate_printJobs:
  "printJobs (fst (dashboard_jobStatusUpdate u (s, w))) =
     map (\<lambda>job. if job_id job = roster_id u then job\<lparr>job_status := roster_status u\<rparr> else job)
       (printJobs s)"
  by (simp add: dashboard_jobStatusUpdate_def)

lemma batchStatusUpdate_printJobs:
  "printJobs (fst (dashboard_batchStatusUpdate u (s, w))) =
     map (\<lambda>job. if job_token job = roster_token u
                 then job\<lparr>job_status := roster_batch_status u\<rparr> else job)
       (printJobs s)"
  by (simp add: dashboard_batchStatusUpdate_def)

lemma map_job_id_status:
  "map job_id (map (\<lambda>job. if P job then job\<lparr>job_status := st\<rparr> else job) js) = map job_id js"
  by (induction js) simp_all

lemma status_map_in_place:
  assumes "i < length js"
  shows "(map (\<lambda>job. if P job then job\<lparr>job_status := st\<rparr> else job) js ! i)
           \<lparr>job_status := job_status (js ! i)\<rparr> = js ! i"
  using assms by simp

lemma status_map_by_id:
  assumes "j \<in> set (map (\<lambda>job. if job_id job = i then job\<lparr>job_status := st\<rparr> else job) js)"
    and "job_id j = i"
  shows "job_status j = st"
proof -
  from assms(1) obtain j0 where "j0 \<in> set js"
    and j: "j = (if job_id j0 = i then j0\<lparr>job_status := st\<rparr> else j0)"
    by (simp only: set_map image_iff) blast
  show ?thesis
  proof (cases "job_id j0 = i")
    case True
    with j show ?thesis by simp
  next
    case False
    with j assms(2) show ?thesis by simp
  qed
qed

lemma handleMarkAsCompleted_state: "fst (handleMarkAsCompleted cfg a jobId result (s, w)) = s"
  by (simp add: handleMarkAsCompleted_def Let_def split: sum.split option.split)

lemma handleMarkAsCompleted_requests:
  "requests (snd (handleMarkAsCompleted cfg a jobId result (s, w))) =
     requests w @ [markCompletedRequest cfg a jobId]"
  by (simp add: handleMarkAsCompleted_def Let_def fetch_def toast_success_def toast_error_def
      console_error_def split: sum.split option.split)

lemma handleDeleteJob_state: "fst (handleDeleteJob cfg a jobId confirmed result (s, w)) = s"
  by (simp add: handleDeleteJob_def Let_def split: sum.split option.split)

lemma handleToggleUploads_activeTab:
  "activeTab (fst (handleToggleUploads cfg a result (s, w))) = activeTab s"
  by (simp add: handleToggleUploads_def Let_def)

lemma dashboard_push_activeTab: "activeTab (fst (dashboard_push e (s, w))) = activeTab s"
  by (cases e)
     (simp_all add: newBatchPrintJob_def dashboard_jobStatusUpdate_def
        dashboard_batchStatusUpdate_def Let_def)

lemma includes_str_empty: "includes_str h []"
  by (cases h) simp_all

text \<open>\<open>includes_str\<close> is the substring test.\<close>

lemma includes_str_iff: "includes_str h n \<longleftrightarrow> (\<exists>p q. h = p @ n @ q)"
proof (induction h)
  case Nil
  then show ?case by auto
next
  case (Cons c cs)
  show ?case
  proof
    assume "includes_str (c # cs) n"
    then consider "take (length n) (c # cs) = n" | "includes_str cs n" by auto
    then show "\<exists>p q. c # cs = p @ n @ q"
    proof cases
      case 1
      then have "c # cs = [] @ n @ drop (length n) (c # cs)"
        by (metis append_Nil append_take_drop_id)
      then show ?thesis by blast
    next
      case 2
      with Cons.IH obtain p q where "cs = p @ n @ q" by blast
      then have "c # cs = (c # p) @ n @ q" by simp
      then show ?thesis by blast
    qed
  next
    assume "\<exists>p q. c # cs = p @ n @ q"
    then obtain p q where pq: "c # cs = p @ n @ q" by blast
    show "includes_str (c # cs) n"
    proof (cases p)
      case Nil
      with pq have "take (length n) (c # cs) = n" by simp
      then show ?thesis by simp
    next
      case (Cons a p')
      with pq have "cs = p' @ n @ q" by simp
      with Cons.IH have "includes_str cs n" by blast
      then show ?thesis by simp
    qed
  qed
qed

subsection \<open>Batch status events\<close>

text \<open>
  C5. A batch status event leaves the roster at its length and, position by position, sets
  the status of every job whose token is the token of the event to the status of the event
  and leaves every other job as it was. Two jobs that share the token are therefore both
  completed by one \<open>completed\<close> event.
\<close>

theorem dashboard_batchStatusUpdate_roster:
  assumes "dashboard_batchStatusUpdate u (s, w) = (s', w')"
  shows "length (printJobs s') = length (printJobs s) \<and>
         (\<forall>i < length (printJobs s).
            (job_token (printJobs s ! i) = roster_token u \<longrightarrow>
               printJobs s' ! i = (printJobs s ! i)\<lparr>job_status := roster_batch_status u\<rparr>) \<and>
            (job_token (printJobs s ! i) \<noteq> roster_token u \<longrightarrow>
               printJobs s' ! i = printJobs s ! i))"
proof -
  from assms have "s' = fst (dashboard_batchStatusUpdate u (s, w))" by simp
  then have "printJobs s' =
      map (\<lambda>job. if job_token job = roster_token u
                  then job\<lparr>job_status := roster_batch_status u\<rparr> else job) (printJobs s)"
    by (simp only: batchStatusUpdate_printJobs)
  then show ?thesis by simp
qed

theorem dashboard_batchStatusUpdate_roster_witness:
  "map job_status (printJobs (fst (dashboard_batchStatusUpdate
      \<lparr>roster_token = ''A17'', roster_batch_status = ''completed''\<rparr>
      (example_dashboard [example_job ''j1'' ''A17'' ''pending'',
                          example_job ''j2'' ''A17'' ''pending'',
                          example_job ''j3'' ''B20'' ''pending''], empty_world)))) =
     [''completed'', ''completed'', ''pending'']"
proof -
  let ?js = "[example_job ''j1'' ''A17'' ''pending'', example_job ''j2'' ''A17'' ''pending'',
              example_job ''j3'' ''B20'' ''pending'']"
  let ?u = "\<lparr>roster_token = ''A17'', roster_batch_status = ''completed''\<rparr>"
  obtain s' w' where h: "dashboard_batchStatusUpdate ?u (example_dashboard ?js, empty_world) = (s', w')"
    by (rule prod.exhaust)
  note t = dashboard_batchStatusUpdate_roster [OF h]
  from t have len: "length (printJobs s') = 3" by (simp add: example_dashboard_def)
  from t have "printJobs s' ! 0 = (?js ! 0)\<lparr>job_status := ''completed''\<rparr>"
    and "printJobs s' ! 1 = (?js ! 1)\<lparr>job_status := ''completed''\<rparr>"
    and "printJobs s' ! 2 = ?js ! 2"
    by (simp_all add: example_dashboard_def example_job_def)
  then have "job_status (printJobs s' ! 0) = ''completed''"
    and "job_status (printJobs s' ! 1) = ''completed''"
    and "job_status (printJobs s' ! 2) = ''pending''"
    by (simp_all add: example_job_def)
  moreover from len obtain x y z where "printJobs s' = [x, y, z]"
    by (cases "printJobs s'"; simp)
       (metis (no_types) length_0_conv length_Suc_conv numeral_2_eq_2 One_nat_def)
  ultimately have "map job_status (printJobs s') = [''completed'', ''completed'', ''pending'']"
    by simp
  then show ?thesis unfolding h by simp
qed

subsection \<open>Toggling upload acceptance\<close>

text \<open>
  C7. \<open>handleToggleUploads\<close> issues one \<open>PUT\<close> to \<open>SHOP_DETAILS/shopId/toggle-uploads\<close> carrying
  the inverted flag. The local flag is inverted exactly when the call answers with a 2xx
  response; whenever it does not, the flag keeps its value and the error notification is
  raised.
\<close>

theorem handleToggleUploads_flag:
  assumes "handleToggleUploads cfg a result (s, w) = (s', w')"
  shows "((isAcceptingUploads s' = (\<not> isAcceptingUploads s)) =
            (\<exists>response. result = Inr response \<and> ok response)) \<and>
         ((\<forall>response. result = Inr response \<longrightarrow> \<not> ok response) \<longrightarrow>
            isAcceptingUploads s' = isAcceptingUploads s \<and>
            toasts w' = toasts w @ [ToastError ''Failed to update shop status'']) \<and>
         requests w' = requests w @ [toggleRequest cfg a s] \<and>
         req_method (toggleRequest cfg a s) = ''PUT'' \<and>
         req_url (toggleRequest cfg a s) =
           SHOP_DETAILS cfg @ ''/'' @ template (getShopId a) @ ''/toggle-uploads'' \<and>
         req_body (toggleRequest cfg a s) =
           JsonBody [(''isAcceptingUploads'', JBool (\<not> isAcceptingUploads s))]"
proof (cases "succeeded result")
  case True
  then obtain response where r: "result = Inr response" "ok response"
    by (cases result) (auto simp add: succeeded_def)
  from True assms have "s' = s\<lparr>isAcceptingUploads := \<not> isAcceptingUploads s\<rparr>"
    and "requests w' = requests w @ [toggleRequest cfg a s]"
    by (auto simp add: handleToggleUploads_def Let_def fetch_def toast_success_def)
  with r show ?thesis by (simp add: toggleRequest_def)
next
  case False
  then have n: "\<not> (\<exists>response. result = Inr response \<and> ok response)"
    by (cases result) (auto simp add: succeeded_def)
  from False assms have "s' = s" and "requests w' = requests w @ [toggleRequest cfg a s]"
    and "toasts w' = toasts w @ [ToastError ''Failed to update shop status'']"
    by (auto simp add: handleToggleUploads_def Let_def fetch_def toast_error_def)
  with n show ?thesis by (simp add: toggleRequest_def)
qed

theorem handleToggleUploads_flag_witness:
  "isAcceptingUploads (fst (handleToggleUploads example_config example_auth
      (Inr \<lparr>resp_status = 200, resp_text = Inr [], resp_json = Inr ()\<rparr>)
      (example_dashboard [], empty_world))) \<and>
   \<not> isAcceptingUploads (fst (handleToggleUploads example_config example_auth
      (Inr \<lparr>resp_status = 500, resp_text = Inr [], resp_json = Inr ()\<rparr>)
      (example_dashboard [], empty_world))) \<and>
   toasts (snd (handleToggleUploads example_config example_auth
      (Inr \<lparr>resp_status = 500, resp_text = Inr [], resp_json = Inr ()\<rparr>)
      (example_dashboard [], empty_world))) = [ToastError ''Failed to update shop status'']"
proof -
  let ?good = "\<lparr>resp_status = 200, resp_text = Inr [], resp_json = Inr ()\<rparr>"
  let ?bad = "\<lparr>resp_status = 500, resp_text = Inr [], resp_json = Inr ()\<rparr>"
  obtain s1 w1 where h1: "handleToggleUploads example_config example_auth (Inr ?good)
      (example_dashboard [], empty_world) = (s1, w1)"
    by (rule prod.exhaust)
  obtain s2 w2 where h2: "handleToggleUploads example_config example_auth (Inr ?bad)
      (example_dashboard [], empty_world) = (s2, w2)"
    by (rule prod.exhaust)
  from handleToggleUploads_flag [OF h1]
  have "isAcceptingUploads s1 = (\<not> isAcceptingUploads (example_dashboard []))"
    by (simp add: ok_200)
  then have "isAcceptingUploads s1" by (simp add: example_dashboard_def)
  moreover from handleToggleUploads_flag [OF h2]
  have "isAcceptingUploads s2 = isAcceptingUploads (example_dashboard []) \<and>
        toasts w2 = toasts empty_world @ [ToastError ''Failed to update shop status'']"
    by (simp add: not_ok_500)
  then have "\<not> isAcceptingUploads s2 \<and> toasts w2 = [ToastError ''Failed to update shop status'']"
    by (simp add: example_dashboard_def empty_world_def)
  ultimately show ?thesis unfolding h1 h2 by simp
qed

subsection \<open>Marking a job completed\<close>

text \<open>
  C8. \<open>handleMarkAsCompleted\<close> issues one \<open>PUT\<close> to \<open>PRINT_JOBS/jobId\<close> with status
  \<open>completed\<close> and, whatever the answer, leaves the whole state of the dashboard, the roster
  included, as it was. No other owner action, tab click or search input changes the roster
  either: of the events modelled, only push events do. A later \<open>jobStatusUpdate\<close> push event for
  the job with status \<open>completed\<close> is what sets the status of the job in the roster.
\<close>

theorem handleMarkAsCompleted_no_local_update:
  "fst (handleMarkAsCompleted cfg a jobId result (s, w)) = s \<and>
   requests (snd (handleMarkAsCompleted cfg a jobId result (s, w))) =
     requests w @ [markCompletedRequest cfg a jobId] \<and>
   req_method (markCompletedRequest cfg a jobId) = ''PUT'' \<and>
   req_url (markCompletedRequest cfg a jobId) = PRINT_JOBS cfg @ ''/'' @ jobId \<and>
   req_body (markCompletedRequest cfg a jobId) = JsonBody [(''status'', JString ''completed'')] \<and>
   ((\<forall>p. e \<noteq> Push p) \<longrightarrow> printJobs (fst (dashboard_step cfg a e (s, w))) = printJobs s) \<and>
   (\<forall>j \<in> set (printJobs (fst (dashboard_jobStatusUpdate
                                  \<lparr>roster_id = jobId, roster_status = ''completed''\<rparr> (s, w1)))).
      job_id j = jobId \<longrightarrow> job_status j = ''completed'')"
proof -
  have "(\<forall>p. e \<noteq> Push p) \<longrightarrow> printJobs (fst (dashboard_step cfg a e (s, w))) = printJobs s"
    by (cases e)
       (simp_all add: handleMarkAsCompleted_state handleDeleteJob_state handleToggleUploads_def
          setActiveTab_def setSearchQuery_def Let_def)
  moreover have "\<forall>j \<in> set (printJobs (fst (dashboard_jobStatusUpdate
                                  \<lparr>roster_id = jobId, roster_status = ''completed''\<rparr> (s, w1)))).
      job_id j = jobId \<longrightarrow> job_status j = ''completed''"
  proof (intro ballI impI)
    fix j
    assume "j \<in> set (printJobs (fst (dashboard_jobStatusUpdate
                                  \<lparr>roster_id = jobId, roster_status = ''completed''\<rparr> (s, w1))))"
      and i: "job_id j = jobId"
    then have "j \<in> set (map (\<lambda>job. if job_id job = jobId
                                    then job\<lparr>job_status := ''completed''\<rparr> else job) (printJobs s))"
      by (simp only: jobStatusUpdate_printJobs roster_update.simps)
    then show "job_status j = ''completed''" using i by (rule status_map_by_id)
  qed
  ultimately show ?thesis
    by (simp only: handleMarkAsCompleted_state handleMarkAsCompleted_requests
        markCompletedRequest_def request.simps simp_thms)
qed

theorem handleMarkAsCompleted_no_local_update_witness:
  "printJobs (fst (handleMarkAsCompleted example_config example_auth ''j1''
      (Inr \<lparr>resp_status = 200, resp_text = Inr [], resp_json = Inr ()\<rparr>)
      (example_dashboard [example_job ''j1'' ''A17'' ''pending''], empty_world))) =
     [example_job ''j1'' ''A17'' ''pending''] \<and>
   printJobs (fst (dashboard_step example_config example_auth (TabClick 1)
      (example_dashboard [example_job ''j1'' ''A17'' ''pending''], empty_world))) =
     [example_job ''j1'' ''A17'' ''pending''] \<and>
   map job_status (printJobs (fst (dashboard_jobStatusUpdate
      \<lparr>roster_id = ''j1'', roster_status = ''completed''\<rparr>
      (example_dashboard [example_job ''j1'' ''A17'' ''pending''], empty_world)))) =
     [''completed'']"
proof -
  let ?s = "example_dashboard [example_job ''j1'' ''A17'' ''pending'']"
  let ?u = "\<lparr>roster_id = ''j1'', roster_status = ''completed''\<rparr>"
  note t = handleMarkAsCompleted_no_local_update [of example_config example_auth "''j1''"
      "Inr \<lparr>resp_status = 200, resp_text = Inr [], resp_json = Inr ()\<rparr>" ?s empty_world
      "TabClick 1" empty_world]
  have p: "printJobs ?s = [example_job ''j1'' ''A17'' ''pending'']"
    by (simp add: example_dashboard_def)
  from t have 1: "fst (handleMarkAsCompleted example_config example_auth ''j1''
      (Inr \<lparr>resp_status = 200, resp_text = Inr [], resp_json = Inr ()\<rparr>) (?s, empty_world)) = ?s"
    by (rule conjunct1)
  from t have 2: "printJobs (fst (dashboard_step example_config example_auth (TabClick 1)
      (?s, empty_world))) = printJobs ?s"
    by simp
  from t have 3: "\<forall>j \<in> set (printJobs (fst (dashboard_jobStatusUpdate ?u (?s, empty_world)))).
      job_id j = ''j1'' \<longrightarrow> job_status j = ''completed''"
    by (elim conjE)
  have "printJobs (fst (dashboard_jobStatusUpdate ?u (?s, empty_world))) =
        [(example_job ''j1'' ''A17'' ''pending'')\<lparr>job_status := ''completed''\<rparr>]"
    by (simp add: jobStatusUpdate_printJobs example_dashboard_def example_job_def)
  with 3 have "job_status ((example_job ''j1'' ''A17'' ''pending'')\<lparr>job_status := ''completed''\<rparr>) =
               ''completed''"
    by simp
  then have "map job_status (printJobs (fst (dashboard_jobStatusUpdate ?u (?s, empty_world)))) =
        [''completed'']"
    by (simp add: jobStatusUpdate_printJobs example_dashboard_def example_job_def)
  with 1 2 p show ?thesis by simp
qed

subsection \<open>The roster under push events\<close>

text \<open>
  C9. Under every push event the identifiers of the roster before the event are a suffix of
  those after it, so no job is removed and the order is kept, and identifiers that were
  pairwise distinct stay so. A new-job event whose identifier is in the roster leaves the
  roster as it was; one whose identifier is not puts the formatted job at the front. A status
  event keeps the length of the roster and changes at most the status of a job, in place:
  position by position, a single-job event sets the status of the jobs with its identifier,
  a batch event that of the jobs with its token, and every other job stays as it was.
\<close>

theorem roster_invariant_under_push:
  assumes "dashboard_push e (s, w) = (s', w')"
  shows "(\<exists>front. map job_id (printJobs s') = front @ map job_id (printJobs s)) \<and>
         (distinct (map job_id (printJobs s)) \<longrightarrow> distinct (map job_id (printJobs s'))) \<and>
         (\<forall>newJob now. e = NewBatchPrintJob newJob now \<longrightarrow>
            (job_id (formattedJob newJob now) \<in> job_id ` set (printJobs s) \<longrightarrow>
               printJobs s' = printJobs s) \<and>
            (job_id (formattedJob newJob now) \<notin> job_id ` set (printJobs s) \<longrightarrow>
               printJobs s' = formattedJob newJob now # printJobs s)) \<and>
         ((\<forall>newJob now. e \<noteq> NewBatchPrintJob newJob now) \<longrightarrow>
            length (printJobs s') = length (printJobs s) \<and>
            (\<forall>i < length (printJobs s).
               (printJobs s' ! i)\<lparr>job_status := job_status (printJobs s ! i)\<rparr> = printJobs s ! i)) \<and>
         (\<forall>update. e = JobStatusUpdate update \<longrightarrow>
            (\<forall>i < length (printJobs s).
               (job_id (printJobs s ! i) = roster_id update \<longrightarrow>
                  printJobs s' ! i = (printJobs s ! i)\<lparr>job_status := roster_status update\<rparr>) \<and>
               (job_id (printJobs s ! i) \<noteq> roster_id update \<longrightarrow>
                  printJobs s' ! i = printJobs s ! i))) \<and>
         (\<forall>update. e = BatchStatusUpdate update \<longrightarrow>
            (\<forall>i < length (printJobs s).
               (job_token (printJobs s ! i) = roster_token update \<longrightarrow>
                  printJobs s' ! i = (printJobs s ! i)\<lparr>job_status := roster_batch_status update\<rparr>) \<and>
               (job_token (printJobs s ! i) \<noteq> roster_token update \<longrightarrow>
                  printJobs s' ! i = printJobs s ! i)))"
proof -
  from assms have s': "s' = fst (dashboard_push e (s, w))" by simp
  show ?thesis
  proof (cases e)
    case (NewBatchPrintJob newJob now)
    with s' have eq: "printJobs s' =
        (if job_id (formattedJob newJob now) \<in> job_id ` set (printJobs s) then printJobs s
         else formattedJob newJob now # printJobs s)"
      by (simp add: newBatchPrintJob_printJobs)
    show ?thesis
    proof (cases "job_id (formattedJob newJob now) \<in> job_id ` set (printJobs s)")
      case True
      with eq have "printJobs s' = printJobs s" by simp
      with True NewBatchPrintJob show ?thesis by simp
    next
      case False
      with eq have "printJobs s' = formattedJob newJob now # printJobs s" by simp
      with False NewBatchPrintJob show ?thesis by simp
    qed
  next
    case (JobStatusUpdate update)
    with s' have eq: "printJobs s' =
        map (\<lambda>job. if job_id job = roster_id update
                    then job\<lparr>job_status := roster_status update\<rparr> else job) (printJobs s)"
      by (simp add: jobStatusUpdate_printJobs)
    then have "map job_id (printJobs s') = map job_id (printJobs s)"
      by (simp only: map_job_id_status)
    moreover from eq have "length (printJobs s') = length (printJobs s)" by simp
    moreover from eq have "\<forall>i < length (printJobs s).
        (printJobs s' ! i)\<lparr>job_status := job_status (printJobs s ! i)\<rparr> = printJobs s ! i"
      by (simp only: status_map_in_place) simp
    moreover from eq have "\<forall>i < length (printJobs s).
        (job_id (printJobs s ! i) = roster_id update \<longrightarrow>
           printJobs s' ! i = (printJobs s ! i)\<lparr>job_status := roster_status update\<rparr>) \<and>
        (job_id (printJobs s ! i) \<noteq> roster_id update \<longrightarrow> printJobs s' ! i = printJobs s ! i)"
      by simp
    ultimately show ?thesis using JobStatusUpdate by simp
  next
    case (BatchStatusUpdate update)
    with s' have eq: "printJobs s' =
        map (\<lambda>job. if job_token job = roster_token update
                    then job\<lparr>job_status := roster_batch_status update\<rparr> else job) (printJobs s)"
      by (simp add: batchStatusUpdate_printJobs)
    then have "map job_id (printJobs s') = map job_id (printJobs s)"
      by (simp only: map_job_id_status)
    moreover from eq have "length (printJobs s') = length (printJobs s)" by simp
    moreover from eq have "\<forall>i < length (printJobs s).
        (printJobs s' ! i)\<lparr>job_status := job_status (printJobs s ! i)\<rparr> = printJobs s ! i"
      by (simp only: status_map_in_place) simp
    moreover from eq have "\<forall>i < length (printJobs s).
        (job_token (printJobs s ! i) = roster_token update \<longrightarrow>
           printJobs s' ! i = (printJobs s ! i)\<lparr>job_status := roster_batch_status update\<rparr>) \<and>
        (job_token (printJobs s ! i) \<noteq> roster_token update \<longrightarrow> printJobs s' ! i = printJobs s ! i)"
      by simp
    ultimately show ?thesis using BatchStatusUpdate by simp
  qed
qed

theorem roster_invariant_under_push_witness:
  "printJobs (fst (dashboard_push (NewBatchPrintJob (example_new_job ''j1'') 0)
      (example_dashboard [example_job ''j1'' ''A17'' ''pending''], empty_world))) =
     [example_job ''j1'' ''A17'' ''pending''] \<and>
   map job_id (printJobs (fst (dashboard_push (NewBatchPrintJob (example_new_job ''j2'') 0)
      (example_dashboard [example_job ''j1'' ''A17'' ''pending''], empty_world)))) =
     [''j2'', ''j1''] \<and>
   length (printJobs (fst (dashboard_push
      (JobStatusUpdate \<lparr>roster_id = ''j1'', roster_status = ''deleted''\<rparr>)
      (example_dashboard [example_job ''j1'' ''A17'' ''pending''], empty_world)))) = 1 \<and>
   job_status (printJobs (fst (dashboard_push
      (JobStatusUpdate \<lparr>roster_id = ''j1'', roster_status = ''deleted''\<rparr>)
      (example_dashboard [example_job ''j1'' ''A17'' ''pending''], empty_world))) ! 0) = ''deleted'' \<and>
   printJobs (fst (dashboard_push
      (JobStatusUpdate \<lparr>roster_id = ''j9'', roster_status = ''deleted''\<rparr>)
      (example_dashboard [example_job ''j1'' ''A17'' ''pending''], empty_world))) ! 0 =
     example_job ''j1'' ''A17'' ''pending'' \<and>
   printJobs (fst (dashboard_push
      (BatchStatusUpdate \<lparr>roster_token = ''B20'', roster_batch_status = ''completed''\<rparr>)
      (example_dashboard [example_job ''j1'' ''A17'' ''pending''], empty_world))) ! 0 =
     example_job ''j1'' ''A17'' ''pending''"
proof -
  let ?s = "example_dashboard [example_job ''j1'' ''A17'' ''pending'']"
  have p: "printJobs ?s = [example_job ''j1'' ''A17'' ''pending'']"
    by (simp add: example_dashboard_def)
  have i1: "job_id (formattedJob (example_new_job ''j1'') 0) = ''j1''"
    and i2: "job_id (formattedJob (example_new_job ''j2'') 0) = ''j2''"
    by (simp_all add: formattedJob_def example_new_job_def or_string_def)
  have j: "job_id (example_job ''j1'' ''A17'' ''pending'') = ''j1''"
    by (simp add: example_job_def)
  obtain s1 w1 where h1: "dashboard_push (NewBatchPrintJob (example_new_job ''j1'') 0)
      (?s, empty_world) = (s1, w1)"
    by (rule prod.exhaust)
  obtain s2 w2 where h2: "dashboard_push (NewBatchPrintJob (example_new_job ''j2'') 0)
      (?s, empty_world) = (s2, w2)"
    by (rule prod.exhaust)
  obtain s3 w3 where h3: "dashboard_push
      (JobStatusUpdate \<lparr>roster_id = ''j1'', roster_status = ''deleted''\<rparr>) (?s, empty_world) = (s3, w3)"
    by (rule prod.exhaust)
  obtain s4 w4 where h4: "dashboard_push
      (JobStatusUpdate \<lparr>roster_id = ''j9'', roster_status = ''deleted''\<rparr>) (?s, empty_world) = (s4, w4)"
    by (rule prod.exhaust)
  obtain s5 w5 where h5: "dashboard_push
      (BatchStatusUpdate \<lparr>roster_token = ''B20'', roster_batch_status = ''completed''\<rparr>)
      (?s, empty_world) = (s5, w5)"
    by (rule prod.exhaust)
  have t: "job_token (example_job ''j1'' ''A17'' ''pending'') = ''A17''"
    by (simp add: example_job_def)
  from roster_invariant_under_push [OF h1]
  have "printJobs s1 = printJobs ?s" by (simp add: p i1 j)
  moreover from roster_invariant_under_push [OF h2]
  have "printJobs s2 = formattedJob (example_new_job ''j2'') 0 # printJobs ?s"
    by (simp add: p i2 j)
  then have "map job_id (printJobs s2) = [''j2'', ''j1'']" by (simp add: p i2 j)
  moreover from roster_invariant_under_push [OF h3]
  have "length (printJobs s3) = length (printJobs ?s)" by simp
  moreover from roster_invariant_under_push [OF h3]
  have "printJobs s3 ! 0 = (printJobs ?s ! 0)\<lparr>job_status := ''deleted''\<rparr>"
    by (simp add: p j)
  then have "job_status (printJobs s3 ! 0) = ''deleted''" by simp
  moreover from roster_invariant_under_push [OF h4]
  have "printJobs s4 ! 0 = printJobs ?s ! 0"
    by (simp add: p j)
  moreover from roster_invariant_under_push [OF h5]
  have "printJobs s5 ! 0 = printJobs ?s ! 0"
    by (simp add: p t)
  ultimately show ?thesis unfolding h1 h2 h3 h4 h5 by (simp add: p)
qed

subsection \<open>What the tabs display\<close>

lemma deleted_not_a_tab: "''deleted'' \<notin> set tabs"
  by (simp add: tabs_def)

lemma displayed_member:
  assumes "job \<in> set (filteredAndSearchedJobs s)"
  shows "job \<in> set (printJobs s) \<and> job_status job = activeTab s"
  using assms by (simp add: filteredAndSearchedJobs_def filteredJobs_def)

lemma dashboard_step_activeTab:
  assumes "activeTab s \<in> set tabs"
  shows "activeTab (fst (dashboard_step cfg a e (s, w))) \<in> set tabs"
proof (cases e)
  case (Push p)
  with assms show ?thesis by (simp add: dashboard_push_activeTab)
next
  case (MarkAsCompleted jobId result)
  with assms show ?thesis by (simp add: handleMarkAsCompleted_state)
next
  case (DeleteJob jobId confirmed result)
  with assms show ?thesis by (simp add: handleDeleteJob_state)
next
  case (ToggleUploads result)
  with assms show ?thesis by (simp add: handleToggleUploads_activeTab)
next
  case (TabClick i)
  with assms show ?thesis by (simp add: setActiveTab_def)
next
  case (SearchInput q)
  with assms show ?thesis by (simp add: setSearchQuery_def)
qed

text \<open>
  C10. The claim is that the displayed list contains exactly the jobs whose status equals the
  active tab. It does not when the search box is in use: with the search text \<open>zz\<close>, a pending
  job with token \<open>A17\<close> is in the roster and has the status of the active tab, and the displayed
  list is empty.
\<close>

theorem search_hides_job_of_active_tab:
  "job_status (example_job ''j1'' ''A17'' ''pending'') =
     activeTab ((example_dashboard [example_job ''j1'' ''A17'' ''pending''])\<lparr>searchQuery := ''zz''\<rparr>) \<and>
   example_job ''j1'' ''A17'' ''pending'' \<in>
     set (printJobs ((example_dashboard [example_job ''j1'' ''A17'' ''pending''])\<lparr>searchQuery := ''zz''\<rparr>)) \<and>
   filteredAndSearchedJobs
     ((example_dashboard [example_job ''j1'' ''A17'' ''pending''])\<lparr>searchQuery := ''zz''\<rparr>) = []"
  by (simp add: example_dashboard_def example_job_def filteredAndSearchedJobs_def filteredJobs_def
      toLowerCase_def)

text \<open>
  C10, as amended. The displayed list contains exactly the jobs of the roster whose status
  equals the active tab and whose token contains the search text, ignoring case; with an
  empty search box these are all jobs of the tab. The active tab starts at the configured
  pending status and, once it is one of \<open>pending\<close>, \<open>completed\<close> and \<open>expired\<close>, every event keeps
  it one of them, so no displayed job has status \<open>deleted\<close>. A \<open>jobStatusUpdate\<close> push event with
  status \<open>deleted\<close> keeps every job in the roster, and no job with the identifier of the event is
  displayed after it.
\<close>

theorem deleted_jobs_never_displayed:
  assumes "activeTab s \<in> set tabs"
  shows "filteredAndSearchedJobs s =
           filter (\<lambda>job. job_status job = activeTab s \<and>
                          includes_str (toLowerCase (job_token job)) (toLowerCase (searchQuery s)))
             (printJobs s) \<and>
         (searchQuery s = [] \<longrightarrow>
            filteredAndSearchedJobs s = filter (\<lambda>job. job_status job = activeTab s) (printJobs s)) \<and>
         (\<forall>job \<in> set (filteredAndSearchedJobs s). job_status job \<noteq> ''deleted'') \<and>
         activeTab (initialDashboard cfg) = STATUS_PENDING cfg \<and>
         activeTab (fst (dashboard_step cfg a e (s, w))) \<in> set tabs \<and>
         map job_id (printJobs (fst (dashboard_jobStatusUpdate
               \<lparr>roster_id = i, roster_status = ''deleted''\<rparr> (s, w)))) = map job_id (printJobs s) \<and>
         (\<forall>job \<in> set (filteredAndSearchedJobs (fst (dashboard_jobStatusUpdate
               \<lparr>roster_id = i, roster_status = ''deleted''\<rparr> (s, w)))). job_id job \<noteq> i)"
proof -
  let ?s' = "fst (dashboard_jobStatusUpdate \<lparr>roster_id = i, roster_status = ''deleted''\<rparr> (s, w))"
  have 1: "filteredAndSearchedJobs s =
           filter (\<lambda>job. job_status job = activeTab s \<and>
                          includes_str (toLowerCase (job_token job)) (toLowerCase (searchQuery s)))
             (printJobs s)"
    by (simp add: filteredAndSearchedJobs_def filteredJobs_def conj_commute)
  have 2: "searchQuery s = [] \<longrightarrow>
            filteredAndSearchedJobs s = filter (\<lambda>job. job_status job = activeTab s) (printJobs s)"
    by (simp add: filteredAndSearchedJobs_def filteredJobs_def toLowerCase_def includes_str_empty)
  have 3: "\<forall>job \<in> set (filteredAndSearchedJobs s). job_status job \<noteq> ''deleted''"
  proof
    fix job
    assume "job \<in> set (filteredAndSearchedJobs s)"
    then have "job_status job = activeTab s" by (simp only: displayed_member)
    with assms have "job_status job \<in> set tabs" by simp
    then show "job_status job \<noteq> ''deleted''"
    proof (rule contrapos_pn)
      assume "job_status job = ''deleted''"
      then show "job_status job \<notin> set tabs" by (simp only: deleted_not_a_tab not_False_eq_True)
    qed
  qed
  have 4: "activeTab (initialDashboard cfg) = STATUS_PENDING cfg"
    by (simp add: initialDashboard_def)
  have 5: "activeTab (fst (dashboard_step cfg a e (s, w))) \<in> set tabs"
    using assms by (rule dashboard_step_activeTab)
  have roster: "printJobs ?s' =
      map (\<lambda>job. if job_id job = i then job\<lparr>job_status := ''deleted''\<rparr> else job) (printJobs s)"
    by (simp add: jobStatusUpdate_printJobs)
  then have 6: "map job_id (printJobs ?s') = map job_id (printJobs s)"
    by (simp only: map_job_id_status)
  have tab: "activeTab ?s' = activeTab s"
    by (simp add: dashboard_jobStatusUpdate_def)
  have 7: "\<forall>job \<in> set (filteredAndSearchedJobs ?s'). job_id job \<noteq> i"
  proof
    fix job
    assume d: "job \<in> set (filteredAndSearchedJobs ?s')"
    then have m: "job \<in> set (printJobs ?s')" and st: "job_status job = activeTab ?s'"
      by (simp_all only: displayed_member)
    show "job_id job \<noteq> i"
    proof
      assume "job_id job = i"
      from m have "job \<in> set (map (\<lambda>job. if job_id job = i
                                      then job\<lparr>job_status := ''deleted''\<rparr> else job) (printJobs s))"
        by (simp only: roster)
      then have "job_status job = ''deleted''"
        using \<open>job_id job = i\<close> by (rule status_map_by_id)
      with st tab assms have "''deleted'' \<in> set tabs" by simp
      with deleted_not_a_tab show False by simp
    qed
  qed
  from 1 2 3 4 5 6 7 show ?thesis by (intro conjI)
qed

theorem deleted_jobs_never_displayed_witness:
  "filteredAndSearchedJobs (example_dashboard [example_job ''j1'' ''A17'' ''pending'',
                                               example_job ''j2'' ''B20'' ''deleted'']) =
     [example_job ''j1'' ''A17'' ''pending''] \<and>
   activeTab (fst (dashboard_step example_config example_auth (TabClick 2)
     (example_dashboard [example_job ''j1'' ''A17'' ''pending'',
                         example_job ''j2'' ''B20'' ''deleted''], empty_world))) \<in> set tabs \<and>
   map job_id (printJobs (fst (dashboard_jobStatusUpdate
     \<lparr>roster_id = ''j1'', roster_status = ''deleted''\<rparr>
     (example_dashboard [example_job ''j1'' ''A17'' ''pending'',
                         example_job ''j2'' ''B20'' ''deleted''], empty_world)))) = [''j1'', ''j2''] \<and>
   filteredAndSearchedJobs (fst (dashboard_jobStatusUpdate
     \<lparr>roster_id = ''j1'', roster_status = ''deleted''\<rparr>
     (example_dashboard [example_job ''j1'' ''A17'' ''pending'',
                         example_job ''j2'' ''B20'' ''deleted''], empty_world))) = []"
proof -
  let ?s = "example_dashboard [example_job ''j1'' ''A17'' ''pending'',
                               example_job ''j2'' ''B20'' ''deleted'']"
  let ?s' = "fst (dashboard_jobStatusUpdate \<lparr>roster_id = ''j1'', roster_status = ''deleted''\<rparr>
                    (?s, empty_world))"
  have a: "activeTab ?s \<in> set tabs" by (simp add: example_dashboard_def tabs_def)
  note t = deleted_jobs_never_displayed [OF a, of example_config example_auth
      "TabClick 2" empty_world "''j1''"]
  have q: "searchQuery ?s = []" by (simp add: example_dashboard_def)
  from t [THEN conjunct2, THEN conjunct1] q
  have "filteredAndSearchedJobs ?s = filter (\<lambda>job. job_status job = activeTab ?s) (printJobs ?s)"
    by (rule mp)
  then have 1: "filteredAndSearchedJobs ?s = [example_job ''j1'' ''A17'' ''pending'']"
    by (simp add: example_dashboard_def example_job_def)
  note rest = t [THEN conjunct2, THEN conjunct2, THEN conjunct2, THEN conjunct2]
  from rest have 2: "activeTab (fst (dashboard_step example_config example_auth (TabClick 2)
      (?s, empty_world))) \<in> set tabs"
    by (rule conjunct1)
  from rest [THEN conjunct2] have "map job_id (printJobs ?s') = map job_id (printJobs ?s)"
    by (rule conjunct1)
  then have 3: "map job_id (printJobs ?s') = [''j1'', ''j2'']"
    by (simp add: example_dashboard_def example_job_def)
  from rest [THEN conjunct2]
  have n: "\<forall>job \<in> set (filteredAndSearchedJobs ?s'). job_id job \<noteq> ''j1''"
    by (rule conjunct2)
  have "filteredAndSearchedJobs ?s' = [] \<or>
        filteredAndSearchedJobs ?s' = [(example_job ''j1'' ''A17'' ''pending'')\<lparr>job_status := ''deleted''\<rparr>]"
    by (simp add: filteredAndSearchedJobs_def filteredJobs_def dashboard_jobStatusUpdate_def
        example_dashboard_def example_job_def)
  then have 4: "filteredAndSearchedJobs ?s' = []"
  proof
    assume "filteredAndSearchedJobs ?s' = []"
    then show ?thesis .
  next
    assume e: "filteredAndSearchedJobs ?s' =
        [(example_job ''j1'' ''A17'' ''pending'')\<lparr>job_status := ''deleted''\<rparr>]"
    with n have "job_id ((example_job ''j1'' ''A17'' ''pending'')\<lparr>job_status := ''deleted''\<rparr>) \<noteq> ''j1''"
      by simp
    then have False by (simp add: example_job_def)
    then show ?thesis ..
  qed
  from 1 2 3 4 show ?thesis by (intro conjI)
qed

end
